theory Spec2Isabelle
  imports Main "HOL-Library.AList"
begin

section \<open>Response maps of the generator driver\<close>

text \<open>
  A Go map \<^verbatim>\<open>map[string]*design.ResponseDefinition\<close> is an association list of its
  entries, in the order in which \<^verbatim>\<open>range\<close> visits them (Go leaves that order open; the
  keys of a map are pairwise different). The nil map is \<open>None\<close>. The type of the response
  definitions belongs to the design package and stays a type variable.
\<close>

type_synonym 'd gomap = "(string \<times> 'd) list"

text \<open>The loop body \<^verbatim>\<open>l[n] = r\<close>.\<close>

definition assign :: "'d gomap \<Rightarrow> string \<times> 'd \<Rightarrow> 'd gomap" where
  "assign l e = AList.update (fst e) (snd e) l"

text \<open>\<^verbatim>\<open>for n, r := range r { l[n] = r }\<close>, on the entries of \<open>r\<close> that are left.\<close>

fun range_assign :: "'d gomap \<Rightarrow> 'd gomap \<Rightarrow> 'd gomap" where
  "range_assign l [] = l"
| "range_assign l (e # es) = range_assign (assign l e) es"

text \<open>
  \<^verbatim>\<open>MergeResponses(l, r)\<close>: the map it returns. When both maps are there, that is \<open>l\<close>
  itself, updated in place.
\<close>

definition MergeResponses :: "'d gomap option \<Rightarrow> 'd gomap option \<Rightarrow> 'd gomap option" where
  "MergeResponses l r =
     (case l of
        None \<Rightarrow> r
      | Some lm \<Rightarrow>
          (case r of
             None \<Rightarrow> l
           | Some rm \<Rightarrow> Some (range_assign lm rm)))"

section \<open>The design model the templates read\<close>

text \<open>
  The design package is a library of its own: this is the part of its data model that the
  templates of \<^verbatim>\<open>writers.go\<close> look at. An attribute has a type and the names its
  \<^verbatim>\<open>RequiredValidationDefinition\<close> lists; an array has an element attribute; an
  object lists its attributes in the order in which the template's \<^verbatim>\<open>range\<close> visits
  them. \<open>Kind\<close> gives the numbers that \<^verbatim>\<open>coerceT\<close> compares \<^verbatim>\<open>.Attribute.Type.Kind\<close> with.
\<close>

datatype DataType = Boolean | Integer | Number | String | Any
  | Array AttributeDefinition
  | Object "(string \<times> AttributeDefinition) list"
and AttributeDefinition = Attribute (Type: DataType) (RequiredNames: "string list")

fun Kind :: "DataType \<Rightarrow> nat" where
  "Kind Boolean = 1"
| "Kind Integer = 2"
| "Kind Number = 3"
| "Kind String = 4"
| "Kind Any = 5"
| "Kind (Array e) = 6"
| "Kind (Object fs) = 7"

definition IsObject :: "DataType \<Rightarrow> bool" where
  "IsObject t = (Kind t = 7)"

definition IsPrimitive :: "DataType \<Rightarrow> bool" where
  "IsPrimitive t = (Kind t \<le> 5)"

fun ToObject :: "DataType \<Rightarrow> (string \<times> AttributeDefinition) list" where
  "ToObject (Object fs) = fs"
| "ToObject t = []"

definition IsRequired :: "AttributeDefinition \<Rightarrow> string \<Rightarrow> bool" where
  "IsRequired a n = (n \<in> set (RequiredNames a))"

section \<open>Values, errors and the library calls of the generated code\<close>

text \<open>
  The values the generated context code handles: typed scalars (\<open>'f\<close> stands for
  \<^verbatim>\<open>float64\<close>), the address of a value, a slice, and nil. \<open>zero_value\<close> is the zero
  value of the Go type that \<^verbatim>\<open>gotyperef\<close> gives a design type.
\<close>

datatype 'f val = VBool bool | VInt int | VNum 'f | VStr string
  | VAddr "'f val" | VSlice "'f val list" | VNil

fun zero_value :: "DataType \<Rightarrow> ('f::zero) val" where
  "zero_value Boolean = VBool False"
| "zero_value Integer = VInt 0"
| "zero_value Number = VNum 0"
| "zero_value String = VStr []"
| "zero_value t = VNil"

text \<open>
  The error value of goa is a chain of typed errors; every constructor takes the chain so
  far as its last argument and returns it with one more error. The nil error is the empty
  chain.
\<close>

datatype error =
    MissingHeader string
  | MissingParam string
  | InvalidParamType string string string
  | ValidationFailed string
  | PayloadFailed string

definition MissingHeaderError :: "string \<Rightarrow> error list \<Rightarrow> error list" where
  "MissingHeaderError name err = err @ [MissingHeader name]"

definition MissingParamError :: "string \<Rightarrow> error list \<Rightarrow> error list" where
  "MissingParamError name err = err @ [MissingParam name]"

definition InvalidParamTypeError :: "string \<Rightarrow> string \<Rightarrow> string \<Rightarrow> error list \<Rightarrow> error list" where
  "InvalidParamTypeError name v expected err = err @ [InvalidParamType name v expected]"

text \<open>
  \<^verbatim>\<open>strconv.ParseBool\<close> and \<^verbatim>\<open>strconv.Atoi\<close> of the Go library, \<open>None\<close> for their
  error: a boolean is one of twelve spellings; an integer is an optional sign and one or
  more decimal digits, within the 64 bits of \<^verbatim>\<open>int\<close>.
\<close>

definition ParseBool :: "string \<Rightarrow> bool option" where
  "ParseBool s =
     (if s \<in> set [''1'', ''t'', ''T'', ''TRUE'', ''true'', ''True''] then Some True
      else if s \<in> set [''0'', ''f'', ''F'', ''FALSE'', ''false'', ''False''] then Some False
      else None)"

definition is_digit :: "char \<Rightarrow> bool" where
  "is_digit c = (48 \<le> (of_char c :: nat) \<and> (of_char c :: nat) \<le> 57)"

definition digit_value :: "char \<Rightarrow> int" where
  "digit_value c = int (of_char c) - 48"

fun decimal :: "string \<Rightarrow> int \<Rightarrow> int" where
  "decimal [] n = n"
| "decimal (c # cs) n = decimal cs (10 * n + digit_value c)"

definition Atoi :: "string \<Rightarrow> int option" where
  "Atoi s =
     (let neg = (s \<noteq> [] \<and> hd s = CHR ''-'');
          ds = (if s \<noteq> [] \<and> (hd s = CHR ''-'' \<or> hd s = CHR ''+'') then tl s else s)
      in if ds = [] \<or> \<not> list_all is_digit ds then None
         else let n = decimal ds 0; v = (if neg then - n else n)
              in if - (2 ^ 63) \<le> v \<and> v < 2 ^ 63 then Some v else None)"

text \<open>
  \<^verbatim>\<open>strings.Split(s, ",")\<close> and \<^verbatim>\<open>strings.Join(a, ",")\<close>: splitting cuts at every
  separator, so the empty string gives one empty piece.
\<close>

fun split_at :: "char \<Rightarrow> string \<Rightarrow> string \<Rightarrow> string list" where
  "split_at sep cur [] = [cur]"
| "split_at sep cur (c # cs) =
     (if c = sep then cur # split_at sep [] cs else split_at sep (cur @ [c]) cs)"

definition Split :: "string \<Rightarrow> char \<Rightarrow> string list" where
  "Split s sep = split_at sep [] s"

fun Join :: "string list \<Rightarrow> char \<Rightarrow> string" where
  "Join [] sep = []"
| "Join [a] sep = a"
| "Join (a # b # bs) sep = a @ sep # Join (b # bs) sep"

text \<open>
  What the templates call and the repository does not define, taken as parameters:
  \<^verbatim>\<open>strconv.ParseFloat\<close>; the design package's \<^verbatim>\<open>IsPrimitivePointer\<close> and
  \<^verbatim>\<open>IsNonZero\<close> of the parameter set; the code that \<^verbatim>\<open>codegen.ValidationChecker\<close>
  emits for an attribute, read as the list of validation failures it reports for the
  value of its target (empty when it emits nothing); and the generated
  \<^verbatim>\<open>New<Payload>\<close>, which returns a payload and an error.
\<close>

record ('f, 'p, 'r) external =
  ParseFloat :: "string \<Rightarrow> 'f option"
  IsPrimitivePointer :: "AttributeDefinition \<Rightarrow> string \<Rightarrow> bool"
  IsNonZero :: "AttributeDefinition \<Rightarrow> string \<Rightarrow> bool"
  validationChecker :: "AttributeDefinition \<Rightarrow> bool \<Rightarrow> bool \<Rightarrow> string \<Rightarrow> 'f val \<Rightarrow> string list"
  NewPayload :: "'r \<Rightarrow> 'p \<times> error list"

section \<open>The coercion template \<^verbatim>\<open>coerceT\<close>\<close>

text \<open>
  \<^verbatim>\<open>coerceT\<close> renders, for the data of \<^verbatim>\<open>newCoerceData name att pointer pkg depth\<close>,
  the Go fragment that turns the string \<^verbatim>\<open>raw<Name>\<close> into a typed value and assigns
  it to the target \<^verbatim>\<open>pkg\<close>. \<open>Coerce\<close> is what the rendered fragment does: given the
  value of \<^verbatim>\<open>raw<Name>\<close> and the error chain \<^verbatim>\<open>err\<close> before it, the value it assigns
  to its target (\<open>None\<close> when it assigns nothing) and \<^verbatim>\<open>err\<close> after it. The target is
  a field of the context for a parameter and the slot \<^verbatim>\<open>elems<Name>2[i]\<close> for an array
  element; the caller of \<open>Coerce\<close> stores the value there. \<open>depth\<close> is the number of tabs
  the fragment is indented by. Generated identifiers are taken to denote different
  variables for different attributes.

  Kinds 1 to 3: \<^verbatim>\<open>if v, err2 := strconv.Parse...(raw); err2 == nil { pkg = v } else
  { err = goa.InvalidParamTypeError(name, raw, kind, err) }\<close>, with \<^verbatim>\<open>tmp := &v; pkg = tmp\<close>
  when \<^verbatim>\<open>.Pointer\<close> is set. Kinds 4 and 5: \<^verbatim>\<open>pkg = raw\<close> or \<^verbatim>\<open>pkg = &raw\<close>. Kind 6:
  \<^verbatim>\<open>elems := strings.Split(raw, ",")\<close>, then \<^verbatim>\<open>pkg = elems\<close> when the element kind is 4,
  and otherwise \<^verbatim>\<open>elems2 := make(T, len(elems))\<close>, a loop \<^verbatim>\<open>for i, rawElem := range elems\<close>
  around the fragment of \<^verbatim>\<open>newCoerceData "elem" (arrayAttribute .Attribute) false
  "elems2[i]" (add .Depth 1)\<close>, and \<^verbatim>\<open>pkg = elems2\<close>. No other kind renders anything.
  \<^verbatim>\<open>arrayAttribute\<close> of an array attribute is its element attribute, \<open>e\<close> below.
\<close>

definition address_of :: "bool \<Rightarrow> 'f val \<Rightarrow> 'f val" where
  "address_of pointer v = (if pointer then VAddr v else v)"

text \<open>The assignment to \<^verbatim>\<open>elems2[i]\<close> by the fragment of an element.\<close>

definition store_elem :: "nat \<Rightarrow> 'f val option \<Rightarrow> 'f val list \<Rightarrow> 'f val list" where
  "store_elem i v elems2 = (case v of Some x \<Rightarrow> elems2[i := x] | None \<Rightarrow> elems2)"

fun Coerce :: "('f::zero, 'p, 'r) external \<Rightarrow> string \<Rightarrow> AttributeDefinition \<Rightarrow> bool \<Rightarrow> nat \<Rightarrow>
    string \<Rightarrow> error list \<Rightarrow> 'f val option \<times> error list" where
  "Coerce X name (Attribute Boolean rq) pointer depth raw err =
     (case ParseBool raw of
        Some v \<Rightarrow> (Some (address_of pointer (VBool v)), err)
      | None \<Rightarrow> (None, InvalidParamTypeError name raw ''boolean'' err))"
| "Coerce X name (Attribute Integer rq) pointer depth raw err =
     (case Atoi raw of
        Some v \<Rightarrow> (Some (address_of pointer (VInt v)), err)
      | None \<Rightarrow> (None, InvalidParamTypeError name raw ''integer'' err))"
| "Coerce X name (Attribute Number rq) pointer depth raw err =
     (case ParseFloat X raw of
        Some v \<Rightarrow> (Some (address_of pointer (VNum v)), err)
      | None \<Rightarrow> (None, InvalidParamTypeError name raw ''number'' err))"
| "Coerce X name (Attribute String rq) pointer depth raw err =
     (Some (address_of pointer (VStr raw)), err)"
| "Coerce X name (Attribute Any rq) pointer depth raw err =
     (Some (address_of pointer (VStr raw)), err)"
| "Coerce X name (Attribute (Array e) rq) pointer depth raw err =
     (let elems = Split raw (CHR '','') in
      if Kind (Type e) = 4 then (Some (VSlice (map VStr elems)), err)
      else
        let elems2 = replicate (length elems) (zero_value (Type e));
            (elems2, err) =
              fold (\<lambda>(i, rawElem) (elems2, err).
                      let (v, err) = Coerce X ''elem'' e False (depth + 1) rawElem err
                      in (store_elem i v elems2, err))
                   (enumerate 0 elems) (elems2, err)
        in (Some (VSlice elems2), err))"
| "Coerce X name (Attribute (Object fs) rq) pointer depth raw err = (None, err)"

section \<open>The context factory template \<^verbatim>\<open>ctxNewT\<close>\<close>

text \<open>
  The fields of \<^verbatim>\<open>ContextTemplateData\<close> that \<^verbatim>\<open>ctxNewT\<close> and the methods
  \<^verbatim>\<open>IsPathParam\<close> and \<^verbatim>\<open>MustValidate\<close> read. A route is kept with the names that
  \<^verbatim>\<open>r.Params(c.Version)\<close> returns for it; a payload with its type name.
\<close>

record RouteDefinition =
  Verb :: string
  Path :: string
  PathParams :: "string list"

record ContextTemplateData =
  Params :: "AttributeDefinition option"
  Payload :: "string option"
  Headers :: "AttributeDefinition option"
  Routes :: "RouteDefinition list"

text \<open>The inner loop of \<^verbatim>\<open>IsPathParam\<close>: \<^verbatim>\<open>if p == param { pp = true; break }\<close>.\<close>

fun param_in :: "string \<Rightarrow> string list \<Rightarrow> bool" where
  "param_in param [] = False"
| "param_in param (p # ps) = (if p = param then True else param_in param ps)"

text \<open>
  The outer loop, over the routes that are left, with the current \<^verbatim>\<open>pp\<close>:
  \<^verbatim>\<open>pp = false; ...; if !pp { break }\<close>.
\<close>

fun routes_loop :: "string \<Rightarrow> RouteDefinition list \<Rightarrow> bool \<Rightarrow> bool" where
  "routes_loop param [] pp = pp"
| "routes_loop param (r # rs) pp =
     (let pp = param_in param (PathParams r)
      in if \<not> pp then pp else routes_loop param rs pp)"

text \<open>
  \<^verbatim>\<open>IsPathParam\<close> and \<^verbatim>\<open>MustValidate\<close>. Both read \<^verbatim>\<open>c.Params\<close> without a nil check:
  \<open>None\<close> is the nil dereference. The template calls them under \<^verbatim>\<open>{{if .Params}}\<close> only.
\<close>

definition IsPathParam :: "ContextTemplateData \<Rightarrow> string \<Rightarrow> bool option" where
  "IsPathParam c param =
     (case Params c of
        None \<Rightarrow> None
      | Some params \<Rightarrow>
          Some (if IsObject (Type params) then routes_loop param (Routes c) False else False))"

definition MustValidate :: "ContextTemplateData \<Rightarrow> string \<Rightarrow> bool option" where
  "MustValidate c name =
     (case Params c of
        None \<Rightarrow> None
      | Some params \<Rightarrow>
          (if IsRequired params name then map_option Not (IsPathParam c name) else Some False))"

text \<open>
  The request as the generated factory reads it (\<^verbatim>\<open>c.Get\<close>, \<^verbatim>\<open>c.Request().Header.Get\<close>,
  \<^verbatim>\<open>c.Payload()\<close>), the generated context struct (its parameter fields by attribute name,
  and \<^verbatim>\<open>Payload\<close>), and the two variables of the factory, \<^verbatim>\<open>ctx\<close> and \<^verbatim>\<open>err\<close>.
\<close>

record 'r request =
  Get :: "string \<Rightarrow> string"
  Header :: "string \<Rightarrow> string"
  Body :: 'r

record ('f, 'p) ctx_struct =
  Fields :: "string \<Rightarrow> 'f val"
  PayloadField :: "'p option"

record ('f, 'p) ctx_frame =
  ctx_var :: "('f, 'p) ctx_struct"
  err_var :: "error list"

text \<open>
  \<^verbatim>\<open>ctx := Name{Context: c}\<close>: every field has the zero value of its type in \<^verbatim>\<open>ctxT\<close>,
  a pointer when the attribute is primitive and \<^verbatim>\<open>IsPrimitivePointer\<close> holds.
\<close>

definition field_zero :: "('f::zero, 'p, 'r) external \<Rightarrow> AttributeDefinition \<Rightarrow> string \<Rightarrow> 'f val" where
  "field_zero X params name =
     (case map_of (ToObject (Type params)) name of
        None \<Rightarrow> VNil
      | Some att \<Rightarrow>
          if IsPrimitive (Type att) \<and> IsPrimitivePointer X params name then VNil
          else zero_value (Type att))"

definition new_ctx :: "('f::zero, 'p, 'r) external \<Rightarrow> ContextTemplateData \<Rightarrow> ('f, 'p) ctx_struct" where
  "new_ctx X c =
     \<lparr>Fields = (case Params c of None \<Rightarrow> (\<lambda>n. VNil) | Some params \<Rightarrow> field_zero X params),
      PayloadField = None\<rparr>"

definition assign_field :: "string \<Rightarrow> 'f val option \<Rightarrow> ('f, 'p) ctx_struct \<Rightarrow> ('f, 'p) ctx_struct" where
  "assign_field name v cx = (case v of Some x \<Rightarrow> cx\<lparr>Fields := (Fields cx)(name := x)\<rparr> | None \<Rightarrow> cx)"

text \<open>
  One round of the header loop: \<^verbatim>\<open>if c.Request().Header.Get(name) == ""
  { err = goa.MissingHeaderError(name, err) }\<close>, rendered for the required headers.
\<close>

definition header_check :: "AttributeDefinition \<Rightarrow> 'r request \<Rightarrow> string \<times> AttributeDefinition \<Rightarrow>
    ('f, 'p) ctx_frame \<Rightarrow> ('f, 'p) ctx_frame" where
  "header_check headers req h s =
     (if IsRequired headers (fst h) then
        (if Header req (fst h) = [] then s\<lparr>err_var := MissingHeaderError (fst h) (err_var s)\<rparr> else s)
      else s)"

text \<open>
  The body of the presence branch of a parameter: the \<^verbatim>\<open>Coerce\<close> fragment with target
  \<^verbatim>\<open>ctx.<Name>\<close> at depth 2, then the validation code, which reports on the field.
\<close>

definition coerce_param :: "('f::zero, 'p, 'r) external \<Rightarrow> AttributeDefinition \<Rightarrow> string \<Rightarrow>
    AttributeDefinition \<Rightarrow> string \<Rightarrow> ('f, 'p) ctx_frame \<Rightarrow> ('f, 'p) ctx_frame" where
  "coerce_param X params name att raw s =
     (let (v, e) = Coerce X name att (IsPrimitivePointer X params name) 2 raw (err_var s);
          s = s\<lparr>ctx_var := assign_field name v (ctx_var s), err_var := e\<rparr>;
          validation = validationChecker X att (IsNonZero X params name) (IsRequired params name)
                         name (Fields (ctx_var s) name)
      in s\<lparr>err_var := err_var s @ map ValidationFailed validation\<rparr>)"

text \<open>
  One round of the parameter loop: \<^verbatim>\<open>raw := c.Get(name)\<close>, then
  \<^verbatim>\<open>if raw == "" { err = goa.MissingParamError(name, err) } else { ... }\<close> when
  \<^verbatim>\<open>MustValidate\<close> holds and \<^verbatim>\<open>if raw != "" { ... }\<close> when it does not.
\<close>

definition param_step :: "('f::zero, 'p, 'r) external \<Rightarrow> ContextTemplateData \<Rightarrow> AttributeDefinition \<Rightarrow>
    'r request \<Rightarrow> string \<times> AttributeDefinition \<Rightarrow> ('f, 'p) ctx_frame \<Rightarrow> ('f, 'p) ctx_frame" where
  "param_step X c params req p s =
     (let name = fst p; att = snd p; raw = Get req name;
          mustValidate = (MustValidate c name = Some True)
      in if mustValidate then
           (if raw = [] then s\<lparr>err_var := MissingParamError name (err_var s)\<rparr>
            else coerce_param X params name att raw s)
         else
           (if raw \<noteq> [] then coerce_param X params name att raw s else s))"

text \<open>The factory up to the payload: \<^verbatim>\<open>var err error\<close>, the new \<^verbatim>\<open>ctx\<close>, the headers.\<close>

definition headers_phase :: "('f::zero, 'p, 'r) external \<Rightarrow> ContextTemplateData \<Rightarrow> 'r request \<Rightarrow>
    ('f, 'p) ctx_frame" where
  "headers_phase X c req =
     (let s = \<lparr>ctx_var = new_ctx X c, err_var = []\<rparr>
      in case Headers c of
           None \<Rightarrow> s
         | Some headers \<Rightarrow> fold (header_check headers req) (ToObject (Type headers)) s)"

text \<open>Then the parameters.\<close>

definition params_phase :: "('f::zero, 'p, 'r) external \<Rightarrow> ContextTemplateData \<Rightarrow> 'r request \<Rightarrow>
    ('f, 'p) ctx_frame" where
  "params_phase X c req =
     (let s = headers_phase X c req
      in case Params c of
           None \<Rightarrow> s
         | Some params \<Rightarrow> fold (param_step X c params req) (ToObject (Type params)) s)"

text \<open>
  The whole factory \<^verbatim>\<open>New<Name>(c)\<close>: the frame it ends in and what it returns, a
  pointer to the context (\<open>None\<close> for nil) and the error. With a payload it ends in
  \<^verbatim>\<open>p, err := New<Payload>(c.Payload()); if err != nil { return nil, err };
  ctx.Payload = p\<close>; \<^verbatim>\<open>err\<close> is the variable declared at the top of the same block, so
  the short declaration assigns to it. The last line is \<^verbatim>\<open>return &ctx, err\<close>.
\<close>

definition NewContext_run :: "('f::zero, 'p, 'r) external \<Rightarrow> ContextTemplateData \<Rightarrow> 'r request \<Rightarrow>
    ('f, 'p) ctx_frame \<times> (('f, 'p) ctx_struct option \<times> error list)" where
  "NewContext_run X c req =
     (let s = params_phase X c req
      in case Payload c of
           None \<Rightarrow> (s, (Some (ctx_var s), err_var s))
         | Some _ \<Rightarrow>
             (let (p, e) = NewPayload X (Body req);
                  s = s\<lparr>err_var := e\<rparr>
              in if err_var s \<noteq> [] then (s, (None, err_var s))
                 else
                   (let s = s\<lparr>ctx_var := (ctx_var s)\<lparr>PayloadField := Some p\<rparr>\<rparr>
                    in (s, (Some (ctx_var s), err_var s)))))"

definition NewContext :: "('f::zero, 'p, 'r) external \<Rightarrow> ContextTemplateData \<Rightarrow> 'r request \<Rightarrow>
    ('f, 'p) ctx_struct option \<times> error list" where
  "NewContext X c req = snd (NewContext_run X c req)"

text \<open>
  The round of one parameter run on its own: on the fresh context, with no error before it.
\<close>

definition param_alone :: "('f::zero, 'p, 'r) external \<Rightarrow> ContextTemplateData \<Rightarrow> AttributeDefinition \<Rightarrow>
    'r request \<Rightarrow> string \<times> AttributeDefinition \<Rightarrow> ('f, 'p) ctx_frame" where
  "param_alone X c params req p = param_step X c params req p \<lparr>ctx_var = new_ctx X c, err_var = []\<rparr>"

section \<open>The data-access template \<^verbatim>\<open>userTypeT\<close>\<close>

text \<open>
  The template data of a user type. Of the primary keys the template uses their number,
  and the argument list and the WHERE clause that the helpers \<^verbatim>\<open>pkattributes\<close>,
  \<^verbatim>\<open>pkwhere\<close> and \<^verbatim>\<open>pkwherefields\<close> render from them; they are kept as the list of
  key column names.
\<close>

record ModelOptions =
  Cached :: bool
  TableName :: string
  DynamicTableName :: bool
  NoMedia :: bool
  Roler :: bool
  SQLTag :: string

record BelongsTo =
  Parent :: string
  DatabaseField :: string

record UserTypeTemplateData =
  TypeName :: string
  PrimaryKeys :: "string list"
  BelongsTo :: "BelongsTo list"
  Options :: ModelOptions

subsection \<open>Storage, cache and goroutines\<close>

text \<open>
  The storage that \<^verbatim>\<open>m.Db\<close> talks to: tables of rows, a row giving its columns integer
  values. A \<^verbatim>\<open>*gorm.DB\<close> value under construction is a query: a table and the conditions
  added by \<^verbatim>\<open>Where\<close>. When \<open>fault\<close> is set every storage operation fails with it and
  changes nothing. \<open>naming\<close> is the table name gorm derives from a type name when the type
  has no \<^verbatim>\<open>TableName\<close> method. The cache maps keys to objects; its expiry is not
  modelled. A \<^verbatim>\<open>go\<close> statement adds a goroutine to \<open>spawned\<close>: it has not run when the
  method returns. \<open>trace\<close> records every storage operation and every cache read, in order.
\<close>

type_synonym row = "(string \<times> int) list"

datatype dberr = RecordNotFound | StorageFailure string

record query =
  table :: string
  conds :: "(string \<times> int) list"

datatype event = Select query | DeleteFrom query | CacheGet string

datatype goroutine = CacheSet string row | CacheDelete string

record world =
  tables :: "string \<Rightarrow> row list"
  fault :: "dberr option"
  naming :: "string \<Rightarrow> string"
  cache :: "string \<rightharpoonup> row"
  spawned :: "goroutine list"
  trace :: "event list"

text \<open>
  What a method returns, and its frame: the receiver's world, the arguments (the key
  arguments by name, \<^verbatim>\<open>tableName\<close>, \<^verbatim>\<open>parentid\<close>), the locals \<^verbatim>\<open>obj\<close>, \<^verbatim>\<open>objs\<close> and
  \<^verbatim>\<open>err\<close>, and the value returned once a \<^verbatim>\<open>return\<close> has run.
\<close>

datatype result = ObjErr row "dberr option" | Err "dberr option" | Objs "row list"

record dao_frame =
  self :: world
  args :: "string \<Rightarrow> int"
  tableName_arg :: string
  parentid_arg :: int
  obj_var :: row
  objs_var :: "row list"
  dberr_var :: "dberr option"
  returned :: "result option"

text \<open>\<^verbatim>\<open>strconv.Itoa\<close>: the decimal form of an integer.\<close>

fun digits :: "nat \<Rightarrow> string" where
  "digits n = (if n < 10 then [char_of (48 + n)] else digits (n div 10) @ [char_of (48 + n mod 10)])"

declare digits.simps [simp del]

definition Itoa :: "int \<Rightarrow> string" where
  "Itoa i = (if i < 0 then CHR ''-'' # digits (nat (- i)) else digits (nat i))"

text \<open>
  \<^verbatim>\<open>m.Db\<close> or \<^verbatim>\<open>m.Db.Table(tableName)\<close>, \<^verbatim>\<open>db.Where("column = ?", v)\<close> and
  \<^verbatim>\<open>db.Scopes(f)\<close>.
\<close>

definition model_table :: "UserTypeTemplateData \<Rightarrow> world \<Rightarrow> string" where
  "model_table d wd =
     (if TableName (Options d) \<noteq> [] then TableName (Options d) else naming wd (TypeName d))"

definition Db :: "UserTypeTemplateData \<Rightarrow> bool \<Rightarrow> dao_frame \<Rightarrow> query" where
  "Db d dyn f = \<lparr>table = (if dyn then tableName_arg f else model_table d (self f)), conds = []\<rparr>"

definition Where :: "string \<Rightarrow> int \<Rightarrow> query \<Rightarrow> query" where
  "Where column v q = q\<lparr>conds := conds q @ [(column, v)]\<rparr>"

definition Scopes :: "(query \<Rightarrow> query) option \<Rightarrow> query \<Rightarrow> query" where
  "Scopes sc q = (case sc of None \<Rightarrow> q | Some g \<Rightarrow> g q)"

text \<open>
  The generated \<^verbatim>\<open><Type>FilterBy<Parent>(parentid, originaldb)\<close>:
  \<^verbatim>\<open>if parentid > 0 { return func(db) { return db.Where("<DatabaseField> = ?", parentid) } }
  else { return func(db) { return db } }\<close>.
\<close>

definition FilterBy :: "BelongsTo \<Rightarrow> int \<Rightarrow> query \<Rightarrow> query" where
  "FilterBy bt parentid =
     (if parentid > 0 then (\<lambda>db. Where (DatabaseField bt) parentid db) else (\<lambda>db. db))"

text \<open>
  The storage operations of gorm: the rows a query selects are the rows of its table that
  meet all its conditions. \<^verbatim>\<open>Find(&obj, ...)\<close> loads the first one, or fails with
  \<^verbatim>\<open>RecordNotFound\<close> and leaves \<^verbatim>\<open>obj\<close> alone; \<^verbatim>\<open>Find(&objs)\<close> loads them all;
  \<^verbatim>\<open>Delete\<close> removes them. \<^verbatim>\<open>Find\<close> and \<^verbatim>\<open>Delete\<close> run when they are called, on
  the conditions the query holds then: a \<^verbatim>\<open>Where\<close> chained behind them adds its
  condition to a value that is never run, and hands on their error.
\<close>

definition matches :: "(string \<times> int) list \<Rightarrow> row \<Rightarrow> bool" where
  "matches cs r = list_all (\<lambda>c. map_of r (fst c) = Some (snd c)) cs"

definition select_rows :: "world \<Rightarrow> query \<Rightarrow> row list" where
  "select_rows wd q = filter (matches (conds q)) (tables wd (table q))"

definition logged :: "event \<Rightarrow> world \<Rightarrow> world" where
  "logged e wd = wd\<lparr>trace := trace wd @ [e]\<rparr>"

definition Find_one :: "query \<Rightarrow> dao_frame \<Rightarrow> dao_frame" where
  "Find_one q f =
     (let f = f\<lparr>self := logged (Select q) (self f)\<rparr>
      in case fault (self f) of
           Some e \<Rightarrow> f\<lparr>dberr_var := Some e\<rparr>
         | None \<Rightarrow>
             (case select_rows (self f) q of
                [] \<Rightarrow> f\<lparr>dberr_var := Some RecordNotFound\<rparr>
              | r # rs \<Rightarrow> f\<lparr>obj_var := r, dberr_var := None\<rparr>))"

definition Find_all :: "query \<Rightarrow> dao_frame \<Rightarrow> dao_frame" where
  "Find_all q f =
     (let f = f\<lparr>self := logged (Select q) (self f)\<rparr>
      in case fault (self f) of
           Some e \<Rightarrow> f
         | None \<Rightarrow> f\<lparr>objs_var := select_rows (self f) q\<rparr>)"

definition Delete_rows :: "query \<Rightarrow> dao_frame \<Rightarrow> dao_frame" where
  "Delete_rows q f =
     (let f = f\<lparr>self := logged (DeleteFrom q) (self f)\<rparr>
      in case fault (self f) of
           Some e \<Rightarrow> f\<lparr>dberr_var := Some e\<rparr>
         | None \<Rightarrow>
             f\<lparr>self := (self f)\<lparr>tables := (tables (self f))
                  (table q := filter (\<lambda>r. \<not> matches (conds q) r) (tables (self f) (table q)))\<rparr>,
               dberr_var := None\<rparr>)"

definition go :: "goroutine \<Rightarrow> dao_frame \<Rightarrow> dao_frame" where
  "go t f = f\<lparr>self := (self f)\<lparr>spawned := spawned (self f) @ [t]\<rparr>\<rparr>"

text \<open>A spawned goroutine, when it runs, and the world once all of them have run.\<close>

fun run_goroutine :: "goroutine \<Rightarrow> world \<Rightarrow> world" where
  "run_goroutine (CacheSet k v) wd = wd\<lparr>cache := (cache wd)(k \<mapsto> v)\<rparr>"
| "run_goroutine (CacheDelete k) wd = wd\<lparr>cache := (cache wd)(k := None)\<rparr>"

definition settle :: "world \<Rightarrow> world" where
  "settle wd = (fold run_goroutine (spawned wd) wd)\<lparr>spawned := []\<rparr>"

subsection \<open>The statements of the generated methods\<close>

text \<open>
  The statements that the methods \<^verbatim>\<open>One\<close>, \<^verbatim>\<open>Delete\<close>, \<^verbatim>\<open>ListBy<Parent>\<close> and
  \<^verbatim>\<open>OneBy<Parent>\<close> are rendered from. The flag of a storage statement says whether
  \<^verbatim>\<open>.Table(tableName)\<close> was rendered into it.
  \<^item> \<open>CacheGetReturn\<close>: \<^verbatim>\<open>o, found := m.cache.Get(strconv.Itoa(id));
     if found { return o.(T), nil }\<close>
  \<^item> \<open>VarObj\<close>, \<open>VarObjs\<close>: \<^verbatim>\<open>var obj T\<close>, \<^verbatim>\<open>var objs []T\<close>
  \<^item> \<open>DbFind\<close>: \<^verbatim>\<open>err := m.Db.Find(&obj, id).Error\<close>, after
     \<^verbatim>\<open>.Scopes(TFilterByP(parentid, &m.Db))\<close> when a relationship is given
  \<^item> \<open>DbFindWhere\<close>: \<^verbatim>\<open>err := m.Db.Find(&obj).Where(pkwhere, pkwherefields).Error\<close>,
     with the key columns of the rendered clause; \<^verbatim>\<open>Find(&obj)\<close> has run, with no
     condition, before \<^verbatim>\<open>Where\<close> is called
  \<^item> \<open>GoCacheSet\<close>: \<^verbatim>\<open>go m.cache.Set(strconv.Itoa(id), obj, cache.DefaultExpiration)\<close>
  \<^item> \<open>ReturnObjErr\<close>: \<^verbatim>\<open>return obj, err\<close>
  \<^item> \<open>DbDelete\<close>: \<^verbatim>\<open>err := m.Db.Delete(&obj, id).Error\<close>
  \<^item> \<open>DbDeleteWhere\<close>: \<^verbatim>\<open>err := m.Db.Delete(&obj).Where(pkwhere, pkwherefields).Error\<close>,
     likewise: \<^verbatim>\<open>Delete(&obj)\<close> has run, with no condition and the zero \<^verbatim>\<open>obj\<close>, before
     \<^verbatim>\<open>Where\<close> is called
  \<^item> \<open>IfErrReturn\<close>: \<^verbatim>\<open>if err != nil { return err }\<close>
  \<^item> \<open>GoCacheDelete\<close>: \<^verbatim>\<open>go m.cache.Delete(strconv.Itoa(id))\<close>
  \<^item> \<open>ReturnNil\<close>: \<^verbatim>\<open>return nil\<close>
  \<^item> \<open>DbFindAll\<close>: \<^verbatim>\<open>m.Db.Scopes(TFilterByP(parentid, &m.Db)).Find(&objs)\<close>
  \<^item> \<open>ReturnObjs\<close>: \<^verbatim>\<open>return objs\<close>
  The key argument that the template calls \<^verbatim>\<open>id\<close> is the argument named \<open>''id''\<close>.
\<close>

datatype stmt =
    CacheGetReturn
  | VarObj
  | VarObjs
  | DbFind bool "BelongsTo option"
  | DbFindWhere bool "string list"
  | GoCacheSet
  | ReturnObjErr
  | DbDelete bool
  | DbDeleteWhere bool "string list"
  | IfErrReturn
  | GoCacheDelete
  | ReturnNil
  | DbFindAll bool BelongsTo
  | ReturnObjs

fun step :: "UserTypeTemplateData \<Rightarrow> stmt \<Rightarrow> dao_frame \<Rightarrow> dao_frame" where
  "step d CacheGetReturn f =
     (let key = Itoa (args f ''id''); f = f\<lparr>self := logged (CacheGet key) (self f)\<rparr>
      in case cache (self f) key of
           Some v \<Rightarrow> f\<lparr>returned := Some (ObjErr v None)\<rparr>
         | None \<Rightarrow> f)"
| "step d VarObj f = f\<lparr>obj_var := []\<rparr>"
| "step d VarObjs f = f\<lparr>objs_var := []\<rparr>"
| "step d (DbFind dyn sc) f =
     Find_one (Where ''id'' (args f ''id'')
                (Scopes (map_option (\<lambda>bt. FilterBy bt (parentid_arg f)) sc) (Db d dyn f))) f"
| "step d (DbFindWhere dyn pks) f = Find_one (Db d dyn f) f"
| "step d GoCacheSet f = go (CacheSet (Itoa (args f ''id'')) (obj_var f)) f"
| "step d ReturnObjErr f = f\<lparr>returned := Some (ObjErr (obj_var f) (dberr_var f))\<rparr>"
| "step d (DbDelete dyn) f = Delete_rows (Where ''id'' (args f ''id'') (Db d dyn f)) f"
| "step d (DbDeleteWhere dyn pks) f = Delete_rows (Db d dyn f) f"
| "step d IfErrReturn f =
     (if dberr_var f \<noteq> None then f\<lparr>returned := Some (Err (dberr_var f))\<rparr> else f)"
| "step d GoCacheDelete f = go (CacheDelete (Itoa (args f ''id''))) f"
| "step d ReturnNil f = f\<lparr>returned := Some (Err None)\<rparr>"
| "step d (DbFindAll dyn bt) f =
     Find_all (Scopes (Some (FilterBy bt (parentid_arg f))) (Db d dyn f)) f"
| "step d ReturnObjs f = f\<lparr>returned := Some (Objs (objs_var f))\<rparr>"

text \<open>A body runs statement by statement until one returns.\<close>

fun run :: "UserTypeTemplateData \<Rightarrow> stmt list \<Rightarrow> dao_frame \<Rightarrow> dao_frame" where
  "run d [] f = f"
| "run d (s # ss) f = (let f = step d s f in if returned f \<noteq> None then f else run d ss f)"

text \<open>
  A call of a method with body \<open>body\<close>: what it returns and the world it leaves.
\<close>

definition call :: "UserTypeTemplateData \<Rightarrow> stmt list \<Rightarrow> world \<Rightarrow> string \<Rightarrow> int \<Rightarrow> (string \<Rightarrow> int) \<Rightarrow>
    result option \<times> world" where
  "call d body wd tn pid a =
     (let f = run d body \<lparr>self = wd, args = a, tableName_arg = tn, parentid_arg = pid, obj_var = [],
                objs_var = [], dberr_var = None, returned = None\<rparr>
      in (returned f, self f))"

subsection \<open>The bodies the template renders\<close>

text \<open>\<^verbatim>\<open>{{ if b }} ... {{ end }}\<close>.\<close>

definition emit_if :: "bool \<Rightarrow> stmt list \<Rightarrow> stmt list" where
  "emit_if b ss = (if b then ss else [])"

definition One :: "UserTypeTemplateData \<Rightarrow> stmt list" where
  "One d =
     emit_if (Cached (Options d)) [CacheGetReturn] @
     [VarObj] @
     (if length (PrimaryKeys d) = 1 then [DbFind (DynamicTableName (Options d)) None]
      else [DbFindWhere (DynamicTableName (Options d)) (PrimaryKeys d)]) @
     emit_if (Cached (Options d)) [GoCacheSet] @
     [ReturnObjErr]"

definition Delete :: "UserTypeTemplateData \<Rightarrow> stmt list" where
  "Delete d =
     [VarObj] @
     (if length (PrimaryKeys d) = 1 then [DbDelete (DynamicTableName (Options d))]
      else [DbDeleteWhere (DynamicTableName (Options d)) (PrimaryKeys d)]) @
     [IfErrReturn] @
     emit_if (Cached (Options d)) [GoCacheDelete] @
     [ReturnNil]"

definition ListBy :: "UserTypeTemplateData \<Rightarrow> BelongsTo \<Rightarrow> stmt list" where
  "ListBy d bt = [VarObjs, DbFindAll (DynamicTableName (Options d)) bt, ReturnObjs]"

definition OneBy :: "UserTypeTemplateData \<Rightarrow> BelongsTo \<Rightarrow> stmt list" where
  "OneBy d bt =
     emit_if (Cached (Options d)) [CacheGetReturn] @
     [VarObj, DbFind (DynamicTableName (Options d)) (Some bt)] @
     emit_if (Cached (Options d)) [GoCacheSet] @
     [ReturnObjErr]"

text \<open>The statements that touch the cache.\<close>

fun cache_stmt :: "stmt \<Rightarrow> bool" where
  "cache_stmt CacheGetReturn = True"
| "cache_stmt GoCacheSet = True"
| "cache_stmt GoCacheDelete = True"
| "cache_stmt s = False"

section \<open>Sample designs and requests\<close>

text \<open>
  Concrete inputs for the examples below. \<open>plain_external\<close> fixes the parameters of the
  context templates for them: a stand-in \<^verbatim>\<open>ParseFloat\<close> that reads integers, optional
  primitive parameters as pointers, no validation code, and a payload factory that fails
  on an empty body.
\<close>

definition plain_external :: "(int, string, string) external" where
  "plain_external =
     \<lparr>ParseFloat = Atoi,
      IsPrimitivePointer = (\<lambda>params name. \<not> IsRequired params name),
      IsNonZero = (\<lambda>params name. False),
      validationChecker = (\<lambda>att nonzero required name v. []),
      NewPayload = (\<lambda>raw. if raw = [] then ([], [PayloadFailed ''empty body'']) else (raw, []))\<rparr>"

definition request_of :: "(string \<times> string) list \<Rightarrow> 'r \<Rightarrow> 'r request" where
  "request_of raws body =
     \<lparr>Get = (\<lambda>n. case map_of raws n of Some v \<Rightarrow> v | None \<Rightarrow> []), Header = (\<lambda>n. []), Body = body\<rparr>"

definition count_params :: AttributeDefinition where
  "count_params = Attribute (Object [(''count'', Attribute Integer [])]) []"

definition list_widgets :: ContextTemplateData where
  "list_widgets = \<lparr>Params = Some count_params, Payload = None, Headers = None, Routes = []\<rparr>"

definition widget_params :: AttributeDefinition where
  "widget_params =
     Attribute (Object [(''count'', Attribute Integer []), (''flag'', Attribute Boolean []),
                        (''id'', Attribute Integer [])]) [''count'', ''id'']"

definition show_widget :: ContextTemplateData where
  "show_widget =
     \<lparr>Params = Some widget_params, Payload = None, Headers = None,
      Routes = [\<lparr>Verb = ''GET'', Path = ''/widgets/:id'', PathParams = [''id'']\<rparr>]\<rparr>"

definition update_widget :: ContextTemplateData where
  "update_widget =
     \<lparr>Params = Some widget_params, Payload = Some ''UpdateWidgetPayload'', Headers = None,
      Routes = [\<lparr>Verb = ''PUT'', Path = ''/widgets/:id'', PathParams = [''id'']\<rparr>]\<rparr>"

definition int_array :: AttributeDefinition where
  "int_array = Attribute (Array (Attribute Integer [])) []"

text \<open>
  A type \<^verbatim>\<open>Widget\<close> with table \<^verbatim>\<open>widgets\<close> and key \<^verbatim>\<open>id\<close>, without and with the
  cache; a type \<^verbatim>\<open>Comment\<close> that belongs to \<^verbatim>\<open>Post\<close> by the column \<^verbatim>\<open>post_id\<close>;
  the same type with the cache; a storage with two widgets and three comments. \<open>key_id i\<close> passes \<open>i\<close> for \<^verbatim>\<open>id\<close>.
\<close>

definition key_id :: "int \<Rightarrow> string \<Rightarrow> int" where
  "key_id i n = (if n = ''id'' then i else 0)"

definition widgets :: UserTypeTemplateData where
  "widgets =
     \<lparr>TypeName = ''Widget'', PrimaryKeys = [''id''], BelongsTo = [],
      Options = \<lparr>Cached = False, TableName = ''widgets'', DynamicTableName = False,
                 NoMedia = False, Roler = False, SQLTag = []\<rparr>\<rparr>"

definition cached_widgets :: UserTypeTemplateData where
  "cached_widgets = widgets\<lparr>Options := (Options widgets)\<lparr>Cached := True\<rparr>\<rparr>"

definition post :: BelongsTo where
  "post = \<lparr>Parent = ''Post'', DatabaseField = ''post_id''\<rparr>"

definition comments :: UserTypeTemplateData where
  "comments =
     \<lparr>TypeName = ''Comment'', PrimaryKeys = [''id''], BelongsTo = [post],
      Options = \<lparr>Cached = False, TableName = ''comments'', DynamicTableName = False,
                 NoMedia = False, Roler = False, SQLTag = []\<rparr>\<rparr>"

definition cached_comments :: UserTypeTemplateData where
  "cached_comments = comments\<lparr>Options := (Options comments)\<lparr>Cached := True\<rparr>\<rparr>"

definition sample_tables :: "string \<Rightarrow> row list" where
  "sample_tables t =
     (if t = ''widgets'' then [[(''id'', 7), (''size'', 3)], [(''id'', 8), (''size'', 5)]]
      else if t = ''comments'' then
        [[(''id'', 1), (''post_id'', 3)], [(''id'', 2), (''post_id'', 4)], [(''id'', 3), (''post_id'', 3)]]
      else [])"

definition sample_world :: world where
  "sample_world =
     \<lparr>tables = sample_tables, fault = None, naming = (\<lambda>n. n), cache = Map.empty,
      spawned = [], trace = []\<rparr>"

text \<open>
  A cached type with the composite key \<^verbatim>\<open>id\<close>, \<^verbatim>\<open>tenant\<close>, and a storage with two of
  its rows. \<open>key_of i t\<close> passes \<open>i\<close> for \<^verbatim>\<open>id\<close> and \<open>t\<close> for \<^verbatim>\<open>tenant\<close>.
\<close>

definition tenant_widgets :: UserTypeTemplateData where
  "tenant_widgets =
     \<lparr>TypeName = ''TenantWidget'', PrimaryKeys = [''id'', ''tenant''], BelongsTo = [],
      Options = \<lparr>Cached = True, TableName = ''tenant_widgets'', DynamicTableName = False,
                 NoMedia = False, Roler = False, SQLTag = []\<rparr>\<rparr>"

definition tenant_world :: world where
  "tenant_world =
     \<lparr>tables = (\<lambda>t. if t = ''tenant_widgets''
                      then [[(''id'', 1), (''tenant'', 1)], [(''id'', 1), (''tenant'', 2)]] else []),
      fault = None, naming = (\<lambda>n. n), cache = Map.empty, spawned = [], trace = []\<rparr>"

definition key_of :: "int \<Rightarrow> int \<Rightarrow> string \<Rightarrow> int" where
  "key_of i t n = (if n = ''id'' then i else if n = ''tenant'' then t else 0)"

section \<open>Properties of the response maps\<close>

lemma map_of_assign: "map_of (assign l e) k = (if k = fst e then Some (snd e) else map_of l k)"
  by (simp add: assign_def update_conv')

lemma map_of_range_assign:
  "distinct (map fst r) \<Longrightarrow>
   map_of (range_assign l r) k = (case map_of r k of Some d \<Rightarrow> Some d | None \<Rightarrow> map_of l k)"
proof (induction r arbitrary: l)
  case Nil
  then show ?case by simp
next
  case (Cons e es)
  have "k = fst e \<Longrightarrow> map_of es k = None"
    using Cons.prems by (auto simp: map_of_eq_None_iff)
  with Cons show ?case
    by (cases e) (auto simp: map_of_assign split: option.splits)
qed

text \<open>
  C10. For all response maps \<open>l\<close> and \<open>r\<close>, \<open>MergeResponses l r\<close> is \<open>r\<close> when \<open>l\<close> is nil and
  \<open>l\<close> when \<open>r\<close> is nil; when both are there, the map returned gives every name of \<open>r\<close> the
  definition \<open>r\<close> gives it, and every name that only \<open>l\<close> has the definition \<open>l\<close> gives it.
  The keys of a Go map are pairwise different, which is the only hypothesis.
\<close>

theorem MergeResponses_override:
  "MergeResponses None r = r \<and>
   MergeResponses l None = l \<and>
   (distinct (map fst rm) \<longrightarrow>
     (\<exists>m. MergeResponses (Some lm) (Some rm) = Some m \<and>
       (\<forall>n d. map_of rm n = Some d \<longrightarrow> map_of m n = Some d) \<and>
       (\<forall>n. map_of rm n = None \<longrightarrow> map_of m n = map_of lm n)))"
  by (auto simp: MergeResponses_def map_of_range_assign split: option.splits)

theorem MergeResponses_override_witness:
  "distinct (map fst [(''OK'', 200::nat), (''NotFound'', 404)]) \<and>
   MergeResponses (Some [(''OK'', 201), (''Created'', 201)])
                  (Some [(''OK'', 200::nat), (''NotFound'', 404)])
     = Some [(''OK'', 200), (''Created'', 201), (''NotFound'', 404)] \<and>
   MergeResponses None (Some [(''OK'', 200::nat)]) = Some [(''OK'', 200)] \<and>
   MergeResponses (Some [(''OK'', 200::nat)]) None = Some [(''OK'', 200)]"
  using MergeResponses_override [of "Some [(''OK'', 200::nat)]" "Some [(''OK'', 200::nat)]"
      "[(''OK'', 200::nat), (''NotFound'', 404)]" "[(''OK'', 201), (''Created'', 201)]"]
  by (simp add: MergeResponses_def assign_def)

section \<open>Properties of the coercion fragments\<close>

subsection \<open>Library facts\<close>

lemma Atoi_42: "Atoi ''42'' = Some 42"
  by (simp add: Atoi_def is_digit_def digit_value_def)

lemma Atoi_abc: "Atoi ''abc'' = None"
  by (simp add: Atoi_def is_digit_def)

lemma Atoi_1: "Atoi ''1'' = Some 1" by (simp add: Atoi_def is_digit_def digit_value_def)

lemma Atoi_2: "Atoi ''2'' = Some 2" by (simp add: Atoi_def is_digit_def digit_value_def)

lemma Atoi_3: "Atoi ''3'' = Some 3" by (simp add: Atoi_def is_digit_def digit_value_def)

lemma Atoi_7: "Atoi ''7'' = Some 7" by (simp add: Atoi_def is_digit_def digit_value_def)

lemma Atoi_a: "Atoi ''a'' = None" by (simp add: Atoi_def is_digit_def)

lemma Atoi_b: "Atoi ''b'' = None" by (simp add: Atoi_def is_digit_def)

lemma Atoi_x: "Atoi ''x'' = None" by (simp add: Atoi_def is_digit_def)

lemma Atoi_empty: "Atoi [] = None" by (simp add: Atoi_def)

lemma Atoi_1c2: "Atoi ''1,2'' = None" by (simp add: Atoi_def is_digit_def)

lemma Split_a1b: "Split ''a,1,b'' (CHR '','') = [''a'', ''1'', ''b'']"
  by (simp add: Split_def)

lemma Split_1x3: "Split ''1,x,3'' (CHR '','') = [''1'', ''x'', ''3'']"
  by (simp add: Split_def)

lemma Split_12: "Split ''1,2'' (CHR '','') = [''1'', ''2'']"
  by (simp add: Split_def)

lemma Split_empty: "Split [] (CHR '','') = [[]]"
  by (simp add: Split_def)

lemma split_at_no_sep:
  "sep \<notin> set s \<Longrightarrow> split_at sep cur (s @ r) = split_at sep (cur @ s) r"
  by (induction s arbitrary: cur) auto

lemma split_at_Join:
  "a \<noteq> [] \<Longrightarrow> \<forall>s\<in>set a. sep \<notin> set s \<Longrightarrow>
   split_at sep cur (Join a sep) = (cur @ hd a) # tl a"
proof (induction a sep arbitrary: cur rule: Join.induct)
  case (1 sep)
  then show ?case by simp
next
  case (2 a sep)
  then show ?case
    using split_at_no_sep [of sep a cur "[]"] by simp
next
  case (3 a b bs sep)
  have "split_at sep cur (a @ sep # Join (b # bs) sep) = split_at sep (cur @ a) (sep # Join (b # bs) sep)"
    using 3 split_at_no_sep [of sep a cur] by simp
  also have "\<dots> = (cur @ a) # split_at sep [] (Join (b # bs) sep)" by simp
  also have "split_at sep [] (Join (b # bs) sep) = b # bs"
    using "3.IH" [of "[]"] "3.prems" by simp
  finally show ?case by simp
qed

lemma Split_Join:
  "a \<noteq> [] \<Longrightarrow> \<forall>s\<in>set a. sep \<notin> set s \<Longrightarrow> Split (Join a sep) sep = a"
  by (simp add: Split_def split_at_Join)

lemma Split_xy: "Split ''x,y'' (CHR '','') = [''x'', ''y'']"
  by (simp add: Split_def)

subsection \<open>The array loop\<close>

text \<open>
  The loop over the pieces writes each slot once: slot \<open>i\<close> ends with the value that the
  fragment of piece \<open>i\<close> assigns, or keeps what \<^verbatim>\<open>make\<close> put there.
\<close>

lemma store_fold_zip:
  "length a = n + length xs \<Longrightarrow>
   fold (\<lambda>(i, r) a. store_elem i (g r) a) (enumerate n xs) a =
     take n a @ map (\<lambda>(r, old). case g r of Some v \<Rightarrow> v | None \<Rightarrow> old) (zip xs (drop n a))"
proof (induction xs arbitrary: n a)
  case Nil
  then show ?case by simp
next
  case (Cons x xs)
  let ?a = "store_elem n (g x) a"
  have len: "length ?a = Suc n + length xs"
    using Cons.prems by (simp add: store_elem_def split: option.splits)
  have n: "n < length a" using Cons.prems by simp
  have tk: "take (Suc n) ?a = take n a @ [case g x of Some v \<Rightarrow> v | None \<Rightarrow> a ! n]"
    using n by (simp add: store_elem_def take_Suc_conv_app_nth split: option.splits)
  have dr: "drop (Suc n) ?a = drop (Suc n) a"
    by (simp add: store_elem_def split: option.splits)
  have "drop n a = a ! n # drop (Suc n) a"
    using n by (simp add: Cons_nth_drop_Suc)
  then show ?case
    using Cons.IH [OF len] tk dr by simp
qed

lemma store_fold_replicate:
  "fold (\<lambda>(i, r) a. store_elem i (g r) a) (enumerate 0 xs) (replicate (length xs) z) =
     map (\<lambda>r. case g r of Some v \<Rightarrow> v | None \<Rightarrow> z) xs"
proof -
  have "zip xs (replicate (length xs) z) = map (\<lambda>r. (r, z)) xs"
    by (induction xs) simp_all
  then show ?thesis
    using store_fold_zip [of "replicate (length xs) z" 0 xs g] by (simp add: comp_def)
qed

text \<open>
  When the fragment of an element only appends to the error chain, so does the loop, and
  what the slots get does not depend on the chain.
\<close>

lemma loop_split:
  assumes "\<And>r e. r \<in> set xs \<Longrightarrow> C r e = (fst (C r []), e @ snd (C r []))"
  shows "fold (\<lambda>(i, rawElem) (elems2, err). case C rawElem err of (v, x) \<Rightarrow> (store_elem i v elems2, x))
           (enumerate n xs) (a, e) =
         (fold (\<lambda>(i, r) a. store_elem i (fst (C r [])) a) (enumerate n xs) a,
          e @ concat (map (\<lambda>r. snd (C r [])) xs))"
  using assms
proof (induction xs arbitrary: n a e)
  case Nil
  then show ?case by simp
next
  case (Cons x xs)
  have "C x e = (fst (C x []), e @ snd (C x []))" by (rule Cons.prems) simp
  then have x: "(case C x e of (v, y) \<Rightarrow> (store_elem n v a, y)) =
      (store_elem n (fst (C x [])) a, e @ snd (C x []))"
    by (metis case_prod_conv)
  have "\<And>r e. r \<in> set xs \<Longrightarrow> C r e = (fst (C r []), e @ snd (C r []))"
    by (rule Cons.prems) simp
  from Cons.IH [OF this] show ?case
    by (simp add: x)
qed

text \<open>Every fragment appends to the chain it is given and reads nothing from it.\<close>

lemma Coerce_appends:
  "Coerce X name att pointer depth raw err =
     (fst (Coerce X name att pointer depth raw []), err @ snd (Coerce X name att pointer depth raw []))"
proof (induction X name att pointer depth raw err rule: Coerce.induct)
  case (6 X name e rq pointer depth raw err)
  show ?case
  proof (cases "Kind (Type e) = 4")
    case True
    then show ?thesis by simp
  next
    case False
    have ih: "Coerce X ''elem'' e False (Suc depth) r e' =
          (fst (Coerce X ''elem'' e False (Suc depth) r []),
           e' @ snd (Coerce X ''elem'' e False (Suc depth) r []))"
      if "r \<in> set (Split raw (CHR '',''))" for r e'
    proof -
      from that obtain i where "i < length (Split raw (CHR '','')) " "Split raw (CHR '','') ! i = r"
        by (auto simp: in_set_conv_nth)
      then have "(i, r) \<in> set (enumerate 0 (Split raw (CHR '','')))"
        by (simp add: in_set_enumerate_eq)
      then show ?thesis
        using "6.IH" [OF refl False refl _ refl, of i r e'] by simp
    qed
    show ?thesis
      using False
      by (simp add: Let_def loop_split [where C = "Coerce X ''elem'' e False (Suc depth)", OF ih])
  qed
qed (simp_all add: InvalidParamTypeError_def split: option.splits)

lemma Coerce_array:
  assumes "Kind (Type e) \<noteq> 4"
  shows "Coerce X name (Attribute (Array e) rq) pointer depth raw err =
     (Some (VSlice (map (\<lambda>r. case fst (Coerce X ''elem'' e False (depth + 1) r []) of
                                Some v \<Rightarrow> v | None \<Rightarrow> zero_value (Type e))
                        (Split raw (CHR '','')))),
      err @ concat (map (\<lambda>r. snd (Coerce X ''elem'' e False (depth + 1) r [])) (Split raw (CHR '','')))) "
proof -
  have ih: "\<And>r e'. Coerce X ''elem'' e False (Suc depth) r e' =
          (fst (Coerce X ''elem'' e False (Suc depth) r []),
           e' @ snd (Coerce X ''elem'' e False (Suc depth) r []))"
    by (rule Coerce_appends)
  show ?thesis
    using assms
    by (simp add: Let_def loop_split [where C = "Coerce X ''elem'' e False (Suc depth)", OF ih]
        store_fold_replicate)
qed


lemmas sample_defs = request_of_def count_params_def list_widgets_def widget_params_def
  show_widget_def update_widget_def int_array_def plain_external_def

lemmas factory_defs = NewContext_def NewContext_run_def params_phase_def headers_phase_def
  param_step_def coerce_param_def new_ctx_def field_zero_def assign_field_def MustValidate_def
  IsPathParam_def IsRequired_def IsObject_def IsPrimitive_def address_of_def
  InvalidParamTypeError_def MissingParamError_def MissingHeaderError_def header_check_def
  param_alone_def

subsection \<open>Scalar kinds\<close>

text \<open>
  C1. For each of the kinds Boolean, Integer and Number the fragment parses the raw string
  and checks that the parse succeeded. On success it assigns the typed value to its target,
  as the address of the value when \<^verbatim>\<open>.Pointer\<close> is set, and leaves the error chain as it
  was. On failure it assigns nothing and adds one invalid-parameter-type error with the
  attribute name, the raw string and the kind expected. For a factory whose only parameter
  is \<^verbatim>\<open>count\<close> of kind Integer, without headers, payload or validation code: the raw value
  \<^verbatim>\<open>42\<close> gives a context whose field is 42 (behind a pointer when the field is one) and
  no error; the raw value \<^verbatim>\<open>abc\<close> gives the error for \<^verbatim>\<open>count\<close>, \<^verbatim>\<open>abc\<close>, \<^verbatim>\<open>integer\<close>
  and a context whose field still has its zero value.
\<close>

theorem scalar_coercion:
  "Coerce X name (Attribute Boolean rq) pointer depth raw err =
     (case ParseBool raw of
        Some v \<Rightarrow> (Some (if pointer then VAddr (VBool v) else VBool v), err)
      | None \<Rightarrow> (None, err @ [InvalidParamType name raw ''boolean''])) \<and>
   Coerce X name (Attribute Integer rq) pointer depth raw err =
     (case Atoi raw of
        Some v \<Rightarrow> (Some (if pointer then VAddr (VInt v) else VInt v), err)
      | None \<Rightarrow> (None, err @ [InvalidParamType name raw ''integer''])) \<and>
   Coerce X name (Attribute Number rq) pointer depth raw err =
     (case ParseFloat X raw of
        Some v \<Rightarrow> (Some (if pointer then VAddr (VNum v) else VNum v), err)
      | None \<Rightarrow> (None, err @ [InvalidParamType name raw ''number''])) \<and>
   (Params c = Some params \<and> ToObject (Type params) = [(''count'', Attribute Integer rq)] \<and>
    Headers c = None \<and> Payload c = None \<and> validationChecker X = (\<lambda>att nz required n v. []) \<longrightarrow>
      (Get req ''count'' = ''42'' \<longrightarrow>
         (\<exists>cx. NewContext X c req = (Some cx, []) \<and>
               Fields cx ''count'' =
                 (if IsPrimitivePointer X params ''count'' then VAddr (VInt 42) else VInt 42))) \<and>
      (Get req ''count'' = ''abc'' \<longrightarrow>
         (\<exists>cx. NewContext X c req = (Some cx, [InvalidParamType ''count'' ''abc'' ''integer'']) \<and>
               Fields cx ''count'' =
                 (if IsPrimitivePointer X params ''count'' then VNil else VInt 0))))"
  by (auto simp: address_of_def InvalidParamTypeError_def NewContext_def NewContext_run_def
      params_phase_def headers_phase_def param_step_def coerce_param_def Let_def Atoi_42 Atoi_abc
      assign_field_def new_ctx_def field_zero_def IsPrimitive_def
      split: option.splits)

theorem scalar_coercion_witness:
  "Coerce plain_external ''flag'' (Attribute Boolean []) True 2 ''true'' [] =
     (Some (VAddr (VBool True)), []) \<and>
   Coerce plain_external ''flag'' (Attribute Boolean []) False 2 ''maybe'' [] =
     (None, [InvalidParamType ''flag'' ''maybe'' ''boolean'']) \<and>
   Coerce plain_external ''ratio'' (Attribute Number []) False 2 ''x'' [] =
     (None, [InvalidParamType ''ratio'' ''x'' ''number'']) \<and>
   map_option (\<lambda>cx. Fields cx ''count'')
     (fst (NewContext plain_external list_widgets (request_of [(''count'', ''42'')] []))) =
       Some (VAddr (VInt 42)) \<and>
   snd (NewContext plain_external list_widgets (request_of [(''count'', ''42'')] [])) = [] \<and>
   map_option (\<lambda>cx. Fields cx ''count'')
     (fst (NewContext plain_external list_widgets (request_of [(''count'', ''abc'')] []))) =
       Some VNil \<and>
   snd (NewContext plain_external list_widgets (request_of [(''count'', ''abc'')] [])) =
     [InvalidParamType ''count'' ''abc'' ''integer'']"
  using scalar_coercion [of plain_external "''flag''" "[]" True 2 "''true''" "[]" list_widgets
      count_params "request_of [(''count'', ''42'')] []"]
    scalar_coercion [of plain_external "''flag''" "[]" False 2 "''maybe''" "[]" list_widgets
      count_params "request_of [(''count'', ''abc'')] []"]
    scalar_coercion [of plain_external "''ratio''" "[]" False 2 "''x''" "[]" list_widgets
      count_params "request_of [(''count'', ''abc'')] []"]
  by (auto simp: sample_defs ParseBool_def Atoi_x IsRequired_def)

subsection \<open>Arrays\<close>

text \<open>
  C5, as amended. For an array attribute whose element kind is not String the fragment
  splits the raw string at the commas, allocates a slice with one zero value of the element
  type per piece, runs the fragment of \<^verbatim>\<open>elem\<close> for every piece, at depth plus one and
  writing to the slot of the piece, and assigns the slice to its target. Every piece that
  fails adds its own error to the chain, in the order of the pieces: the loop never stops
  early, and the chain keeps all of them, not the first alone.
\<close>

theorem array_coercion_chains_element_errors:
  assumes "Kind (Type e) \<noteq> 4"
  shows "Coerce X name (Attribute (Array e) rq) pointer depth raw err =
     (Some (VSlice (map (\<lambda>r. case fst (Coerce X ''elem'' e False (depth + 1) r []) of
                                Some v \<Rightarrow> v | None \<Rightarrow> zero_value (Type e))
                        (Split raw (CHR '','')))),
      err @ concat (map (\<lambda>r. snd (Coerce X ''elem'' e False (depth + 1) r [])) (Split raw (CHR '','')))) "
  using assms by (rule Coerce_array)

theorem array_coercion_chains_element_errors_witness:
  "Kind (Type (Attribute Integer [])) \<noteq> 4 \<and>
   Coerce plain_external ''ids'' int_array False 2 ''1,x,3'' [MissingParam ''count''] =
     (Some (VSlice [VInt 1, VInt 0, VInt 3]),
      [MissingParam ''count'', InvalidParamType ''elem'' ''x'' ''integer''])"
  using array_coercion_chains_element_errors [of "Attribute Integer []" plain_external "''ids''" "[]"
      False 2 "''1,x,3''" "[MissingParam ''count'']"]
  by (simp add: int_array_def Split_1x3 Atoi_1 Atoi_x Atoi_3 address_of_def InvalidParamTypeError_def)

text \<open>
  C5 as stated fails: with the pieces \<^verbatim>\<open>a\<close>, \<^verbatim>\<open>1\<close> and \<^verbatim>\<open>b\<close> for an integer array, the
  chain after the fragment holds an error for \<^verbatim>\<open>a\<close> and an error for \<^verbatim>\<open>b\<close>.
\<close>

theorem array_coercion_surfaces_every_error:
  "Coerce plain_external ''ids'' int_array False 2 ''a,1,b'' [] =
     (Some (VSlice [VInt 0, VInt 1, VInt 0]),
      [InvalidParamType ''elem'' ''a'' ''integer'', InvalidParamType ''elem'' ''b'' ''integer''])"
  by (simp add: int_array_def Split_a1b Atoi_a Atoi_1 Atoi_b address_of_def InvalidParamTypeError_def
      store_elem_def)

text \<open>
  C6, as amended. Let \<open>a\<close> be a sequence of strings that is not empty and none of which
  holds a comma. For an array attribute with element attribute \<open>e\<close>, the fragment run on
  \<open>a\<close> joined by commas gives the sequence of what the element fragment gives for the
  members of \<open>a\<close>, one by one (the value it assigns, the zero value where it fails), and
  the errors of the members in order; when the element kind is String it gives \<open>a\<close> itself.
\<close>

theorem array_coercion_of_joined_elements:
  assumes "a \<noteq> []" and "\<forall>s\<in>set a. CHR '','' \<notin> set s"
  shows "(Kind (Type e) \<noteq> 4 \<longrightarrow>
            Coerce X name (Attribute (Array e) rq) pointer depth (Join a (CHR '','')) err =
              (Some (VSlice (map (\<lambda>r. case fst (Coerce X ''elem'' e False (depth + 1) r []) of
                                         Some v \<Rightarrow> v | None \<Rightarrow> zero_value (Type e)) a)),
               err @ concat (map (\<lambda>r. snd (Coerce X ''elem'' e False (depth + 1) r [])) a))) \<and>
         (Kind (Type e) = 4 \<longrightarrow>
            Coerce X name (Attribute (Array e) rq) pointer depth (Join a (CHR '','')) err =
              (Some (VSlice (map VStr a)), err))"
  using Split_Join [OF assms] by (simp add: Coerce_array del: Coerce.simps(6)) (simp add: Let_def)

theorem array_coercion_of_joined_elements_witness:
  "[''1'', ''x'', ''3''] \<noteq> [] \<and> list_all (\<lambda>s. CHR '','' \<notin> set s) [''1'', ''x'', ''3''] \<and>
   Join [''1'', ''x'', ''3''] (CHR '','') = ''1,x,3'' \<and>
   Coerce plain_external ''ids'' int_array False 2 (Join [''1'', ''x'', ''3''] (CHR '','')) [] =
     (Some (VSlice [VInt 1, VInt 0, VInt 3]), [InvalidParamType ''elem'' ''x'' ''integer'']) \<and>
   Coerce plain_external ''tags'' (Attribute (Array (Attribute String [])) []) False 2
       (Join [''a'', ''b''] (CHR '','')) [] =
     (Some (VSlice [VStr ''a'', VStr ''b'']), [])"
  using array_coercion_of_joined_elements [of "[''1'', ''x'', ''3'']" "Attribute Integer []"
      plain_external "''ids''" "[]" False 2 "[]"]
    array_coercion_of_joined_elements [of "[''a'', ''b'']" "Attribute String []"
      plain_external "''tags''" "[]" False 2 "[]"]
  by (simp add: int_array_def Atoi_1 Atoi_x Atoi_3 address_of_def InvalidParamTypeError_def)

text \<open>
  C6 as stated fails. The one string \<^verbatim>\<open>x,y\<close> joined is \<^verbatim>\<open>x,y\<close>, which a string array
  decodes to the two strings \<^verbatim>\<open>x\<close> and \<^verbatim>\<open>y\<close>. The one string \<^verbatim>\<open>1,2\<close> decodes to the
  integers 1 and 2 as an array, and to an error on its own. The empty sequence joined is the
  empty string, which an integer array decodes to one slot and one error.
\<close>

theorem joined_elements_differ_from_elements:
  "Coerce plain_external ''tags'' (Attribute (Array (Attribute String [])) []) False 2
       (Join [''x,y''] (CHR '','')) [] =
     (Some (VSlice [VStr ''x'', VStr ''y'']), []) \<and>
   Coerce plain_external ''elem'' (Attribute String []) False 3 ''x,y'' [] = (Some (VStr ''x,y''), []) \<and>
   Coerce plain_external ''ids'' int_array False 2 (Join [''1,2''] (CHR '','')) [] =
     (Some (VSlice [VInt 1, VInt 2]), []) \<and>
   Coerce plain_external ''elem'' (Attribute Integer []) False 3 ''1,2'' [] =
     (None, [InvalidParamType ''elem'' ''1,2'' ''integer'']) \<and>
   Coerce plain_external ''ids'' int_array False 2 (Join [] (CHR '','')) [] =
     (Some (VSlice [VInt 0]), [InvalidParamType ''elem'' [] ''integer''])"
  by (simp add: int_array_def Split_xy Split_12 Split_empty Atoi_1 Atoi_2 Atoi_1c2 Atoi_empty
      address_of_def InvalidParamTypeError_def store_elem_def)

section \<open>Properties of the context factory\<close>

subsection \<open>Frames\<close>

text \<open>
  The round of a parameter reads the frame in two places only, the chain and the field of
  the parameter, and writes the same two.
\<close>

lemma coerce_param_frame:
  "coerce_param X params name att raw s =
     (let v = fst (Coerce X name att (IsPrimitivePointer X params name) 2 raw []);
          cx = assign_field name v (ctx_var s)
      in s\<lparr>ctx_var := cx,
           err_var := err_var s @ snd (Coerce X name att (IsPrimitivePointer X params name) 2 raw []) @
             map ValidationFailed (validationChecker X att (IsNonZero X params name)
               (IsRequired params name) name (Fields cx name))\<rparr>)"
  unfolding coerce_param_def
  by (subst Coerce_appends) (simp add: Let_def)

lemma param_step_alone:
  assumes "Fields (ctx_var s) (fst p) = Fields (new_ctx X c) (fst p)"
  shows "err_var (param_step X c params req p s) = err_var s @ err_var (param_alone X c params req p)"
    and "Fields (ctx_var (param_step X c params req p s)) =
           (Fields (ctx_var s))(fst p := Fields (ctx_var (param_alone X c params req p)) (fst p))"
    and "PayloadField (ctx_var (param_step X c params req p s)) = PayloadField (ctx_var s)"
  using assms
  by (auto simp: param_step_def param_alone_def coerce_param_frame assign_field_def Let_def
      MissingParamError_def split: option.splits)

lemma fold_param_step:
  "distinct (map fst ps) \<Longrightarrow>
   \<forall>p\<in>set ps. Fields (ctx_var s) (fst p) = Fields (new_ctx X c) (fst p) \<Longrightarrow>
   err_var (fold (param_step X c params req) ps s) =
       err_var s @ concat (map (\<lambda>p. err_var (param_alone X c params req p)) ps) \<and>
   (\<forall>p\<in>set ps. Fields (ctx_var (fold (param_step X c params req) ps s)) (fst p) =
       Fields (ctx_var (param_alone X c params req p)) (fst p)) \<and>
   (\<forall>n. n \<notin> fst ` set ps \<longrightarrow>
       Fields (ctx_var (fold (param_step X c params req) ps s)) n = Fields (ctx_var s) n) \<and>
   PayloadField (ctx_var (fold (param_step X c params req) ps s)) = PayloadField (ctx_var s)"
proof (induction ps arbitrary: s)
  case Nil
  then show ?case by simp
next
  case (Cons p ps)
  let ?s = "param_step X c params req p s"
  have d: "distinct (map fst ps)" and p: "fst p \<notin> fst ` set ps"
    and f: "Fields (ctx_var s) (fst p) = Fields (new_ctx X c) (fst p)"
    using Cons.prems by auto
  note st = param_step_alone [OF f, of params req]
  have inv: "\<forall>q\<in>set ps. Fields (ctx_var ?s) (fst q) = Fields (new_ctx X c) (fst q)"
  proof
    fix q assume q: "q \<in> set ps"
    then have "fst q \<noteq> fst p" using p by (metis imageI)
    then show "Fields (ctx_var ?s) (fst q) = Fields (new_ctx X c) (fst q)"
      using Cons.prems q by (simp add: st(2))
  qed
  from Cons.IH [OF d inv] p show ?case
    by (auto simp: st)
qed

lemma fold_header_check:
  "ctx_var (fold (header_check headers req) hs s) = ctx_var s"
  by (induction hs arbitrary: s) (simp_all add: header_check_def)

lemma headers_phase_ctx: "ctx_var (headers_phase X c req) = new_ctx X c"
  by (simp add: headers_phase_def Let_def fold_header_check split: option.splits)

lemma params_phase_fold:
  assumes "Params c = Some params" and "distinct (map fst (ToObject (Type params)))"
  shows "err_var (params_phase X c req) =
           err_var (headers_phase X c req) @
           concat (map (\<lambda>p. err_var (param_alone X c params req p)) (ToObject (Type params)))"
    and "\<forall>p\<in>set (ToObject (Type params)).
           Fields (ctx_var (params_phase X c req)) (fst p) =
           Fields (ctx_var (param_alone X c params req p)) (fst p)"
  using fold_param_step [OF assms(2), of "headers_phase X c req" X c params req] assms(1)
  by (simp_all add: params_phase_def Let_def headers_phase_ctx)

lemma params_phase_payload: "PayloadField (ctx_var (params_phase X c req)) = None"
proof (cases "Params c")
  case None
  then show ?thesis by (simp add: params_phase_def Let_def headers_phase_ctx new_ctx_def)
next
  case (Some params)
  have "PayloadField (ctx_var (fold (param_step X c params req) ps s)) = PayloadField (ctx_var s)" for ps s
    by (induction ps arbitrary: s)
      (auto simp: param_step_def coerce_param_frame assign_field_def Let_def split: option.splits)
  with Some show ?thesis by (simp add: params_phase_def Let_def headers_phase_ctx new_ctx_def)
qed

subsection \<open>Accumulation of errors\<close>

text \<open>
  C3, as amended. In the factory the errors of the headers and of the parameters go into
  one chain: after the parameter loop the chain is the chain of the headers followed, in
  the order of the parameters, by the errors that each parameter gives when its round runs
  on its own. The field of every parameter is the one its own round gives, whatever failed
  before it. Without a payload the factory returns this context, never nil, and this
  chain. With a payload that fails it returns nil and the failure of the payload.
  The parameters of an object have pairwise different names.
\<close>

theorem errors_accumulate_across_parameters:
  assumes "Params c = Some params" and "distinct (map fst (ToObject (Type params)))"
  shows "err_var (params_phase X c req) =
           err_var (headers_phase X c req) @
           concat (map (\<lambda>p. err_var (param_alone X c params req p)) (ToObject (Type params))) \<and>
         (\<forall>p\<in>set (ToObject (Type params)).
           Fields (ctx_var (params_phase X c req)) (fst p) =
           Fields (ctx_var (param_alone X c params req p)) (fst p)) \<and>
         (Payload c = None \<longrightarrow>
           NewContext X c req = (Some (ctx_var (params_phase X c req)), err_var (params_phase X c req))) \<and>
         (Payload c \<noteq> None \<and> snd (NewPayload X (Body req)) \<noteq> [] \<longrightarrow>
           NewContext X c req = (None, snd (NewPayload X (Body req))))"
proof (intro conjI impI)
  show "err_var (params_phase X c req) =
           err_var (headers_phase X c req) @
           concat (map (\<lambda>p. err_var (param_alone X c params req p)) (ToObject (Type params)))"
    by (rule params_phase_fold(1) [OF assms])
  show "\<forall>p\<in>set (ToObject (Type params)).
           Fields (ctx_var (params_phase X c req)) (fst p) =
           Fields (ctx_var (param_alone X c params req p)) (fst p)"
    by (rule params_phase_fold(2) [OF assms])
  show "NewContext X c req = (Some (ctx_var (params_phase X c req)), err_var (params_phase X c req))"
    if "Payload c = None"
    using that by (simp add: NewContext_def NewContext_run_def Let_def)
  show "NewContext X c req = (None, snd (NewPayload X (Body req)))"
    if "Payload c \<noteq> None \<and> snd (NewPayload X (Body req)) \<noteq> []"
    using that by (auto simp: NewContext_def NewContext_run_def Let_def split: prod.splits)
qed

theorem errors_accumulate_across_parameters_witness:
  "Params show_widget = Some widget_params \<and>
   distinct (map fst (ToObject (Type widget_params))) \<and>
   Payload show_widget = None \<and>
   snd (NewContext plain_external show_widget
          (request_of [(''count'', ''abc''), (''flag'', ''maybe''), (''id'', ''7'')] [])) =
     [InvalidParamType ''count'' ''abc'' ''integer'', InvalidParamType ''flag'' ''maybe'' ''boolean''] \<and>
   map_option (\<lambda>cx. Fields cx ''id'')
     (fst (NewContext plain_external show_widget
          (request_of [(''count'', ''abc''), (''flag'', ''maybe''), (''id'', ''7'')] []))) =
     Some (VInt 7)"
  using errors_accumulate_across_parameters [of show_widget widget_params plain_external
      "request_of [(''count'', ''abc''), (''flag'', ''maybe''), (''id'', ''7'')] []"]
  by (simp add: sample_defs factory_defs Let_def Atoi_abc Atoi_7 ParseBool_def)

text \<open>
  C3 as stated fails: the factory does not always return a context. With a payload whose
  unmarshalling fails it returns nil, also when a parameter has failed before.
\<close>

theorem failed_payload_returns_nil_context:
  "fst (NewContext plain_external update_widget
          (request_of [(''count'', ''abc''), (''id'', ''7'')] [])) = None \<and>
   snd (NewContext plain_external update_widget
          (request_of [(''count'', ''abc''), (''id'', ''7'')] [])) = [PayloadFailed ''empty body'']"
  by (simp add: NewContext_def NewContext_run_def Let_def update_widget_def plain_external_def
      request_of_def)

text \<open>
  When the payload is unmarshalled without error, the assignment \<^verbatim>\<open>p, err := ...\<close> has
  replaced the chain of the headers and parameters by nil, and the factory returns no error.
\<close>

lemma payload_success_returns_no_error:
  "Payload c = Some t \<Longrightarrow> snd (NewPayload X (Body req)) = [] \<Longrightarrow> snd (NewContext X c req) = []"
  by (cases "NewPayload X (Body req)") (simp add: NewContext_def NewContext_run_def Let_def)

subsection \<open>Path parameters\<close>










subsection \<open>Payload\<close>

text \<open>
  C7. When the action declares a payload and the payload factory returns an error, the
  context factory returns nil and that error at once: the errors of the headers and
  parameters are not in it, and the frame it ends in has no payload in its context.
\<close>

theorem payload_failure_returns_at_once:
  assumes "Payload c = Some t" and "NewPayload X (Body req) = (p, e)" and "e \<noteq> []"
  shows "NewContext X c req = (None, e) \<and>
         PayloadField (ctx_var (fst (NewContext_run X c req))) = None"
  using assms by (simp add: NewContext_def NewContext_run_def Let_def params_phase_payload)

theorem payload_failure_returns_at_once_witness:
  "Payload update_widget = Some ''UpdateWidgetPayload'' \<and>
   NewPayload plain_external [] = ([], [PayloadFailed ''empty body'']) \<and>
   NewContext plain_external update_widget (request_of [(''count'', ''7''), (''id'', ''7'')] []) =
     (None, [PayloadFailed ''empty body''])"
  using payload_failure_returns_at_once [of update_widget "''UpdateWidgetPayload''" plain_external
      "request_of [(''count'', ''7''), (''id'', ''7'')] []" "[]" "[PayloadFailed ''empty body'']"]
  by (simp add: update_widget_def plain_external_def request_of_def)

section \<open>Properties of the data-access methods\<close>

subsection \<open>Queries\<close>

lemma matches_append: "matches (cs @ ds) r = (matches cs r \<and> matches ds r)"
  by (simp add: matches_def)

lemma select_rows_Where:
  "select_rows wd (Where column v q) = filter (\<lambda>r. map_of r column = Some v) (select_rows wd q)"
  by (auto simp: select_rows_def Where_def matches_append intro!: filter_cong) (simp_all add: matches_def)

lemma model_table_trace [simp]: "model_table d (wd\<lparr>trace := t\<rparr>) = model_table d wd"
  by (simp add: model_table_def)

lemma select_rows_trace [simp]: "select_rows (wd\<lparr>trace := t\<rparr>) q = select_rows wd q"
  by (simp add: select_rows_def)

lemma select_rows_FilterBy:
  "select_rows wd (FilterBy bt parentid q) =
     (if parentid > 0 then filter (\<lambda>r. map_of r (DatabaseField bt) = Some parentid) (select_rows wd q)
      else select_rows wd q)"
  by (simp add: FilterBy_def select_rows_Where)

lemma select_rows_table: "select_rows wd \<lparr>table = t, conds = []\<rparr> = tables wd t"
  by (simp add: select_rows_def matches_def)

lemmas dao_sample_defs = key_id_def widgets_def cached_widgets_def post_def comments_def
  cached_comments_def
  sample_tables_def sample_world_def

lemmas dao_defs = call_def Find_one_def Find_all_def Delete_rows_def go_def Db_def Where_def
  Scopes_def FilterBy_def logged_def model_table_def select_rows_def matches_def emit_if_def
  settle_def Let_def

lemma Itoa_7: "Itoa 7 = ''7''"
  by code_simp

lemma Itoa_9: "Itoa 9 = ''9''"
  by code_simp

lemma Itoa_1: "Itoa 1 = ''1''"
  by code_simp

lemma Itoa_2: "Itoa 2 = ''2''"
  by code_simp

lemma Itoa_3: "Itoa 3 = ''3''"
  by code_simp

subsection \<open>Fetching one row\<close>

text \<open>
  C2. The method \<^verbatim>\<open>One\<close> of the cached widget type, called for the key 9 on a storage
  without such a row and an empty cache: the lookup fails with \<^verbatim>\<open>RecordNotFound\<close>, and
  the method has still spawned the goroutine that stores the empty object under the key
  \<^verbatim>\<open>9\<close>. Once that goroutine has run, the same call finds the empty object in the cache and
  returns it with no error.
\<close>

theorem One_caches_a_failed_lookup:
  "call cached_widgets (One cached_widgets) sample_world [] 0 (key_id 9) =
     (Some (ObjErr [] (Some RecordNotFound)),
      sample_world\<lparr>spawned := [CacheSet ''9'' []],
                   trace := [CacheGet ''9'', Select \<lparr>table = ''widgets'', conds = [(''id'', 9)]\<rparr>]\<rparr>) \<and>
   fst (call cached_widgets (One cached_widgets)
          (settle (snd (call cached_widgets (One cached_widgets) sample_world [] 0 (key_id 9))))
          [] 0 (key_id 9)) =
     Some (ObjErr [] None)"
  by (simp add: One_def dao_sample_defs dao_defs Itoa_9)

text \<open>
  What \<^verbatim>\<open>One\<close> does in general. With the cache, a hit returns the cached object and
  the trace shows the cache read alone; a miss is followed by one lookup, and the goroutine
  storing \<^verbatim>\<open>obj\<close> is spawned whether the lookup failed or not. Without the cache no
  statement of the body touches it.
\<close>

lemma One_with_cache:
  assumes "Cached (Options d)"
  shows "cache wd (Itoa (a ''id'')) = Some v \<Longrightarrow>
           call d (One d) wd tn pid a =
             (Some (ObjErr v None), wd\<lparr>trace := trace wd @ [CacheGet (Itoa (a ''id''))]\<rparr>)"
    and "cache wd (Itoa (a ''id'')) = None \<Longrightarrow>
           (case fst (call d (One d) wd tn pid a) of
              Some (ObjErr obj e) \<Rightarrow>
                snd (call d (One d) wd tn pid a) =
                  wd\<lparr>spawned := spawned wd @ [CacheSet (Itoa (a ''id'')) obj],
                     trace := trace wd @
                       [CacheGet (Itoa (a ''id'')),
                        Select (let all = \<lparr>table = (if DynamicTableName (Options d) then tn
                                                       else model_table d wd), conds = []\<rparr>
                                in if length (PrimaryKeys d) = 1 then Where ''id'' (a ''id'') all
                                   else all)]\<rparr>
            | _ \<Rightarrow> False)"
  using assms
  by (auto simp: One_def call_def emit_if_def Find_one_def go_def logged_def Let_def Db_def
      Scopes_def split: option.splits list.splits)

lemma One_without_cache:
  "\<not> Cached (Options d) \<Longrightarrow> \<forall>s\<in>set (One d). \<not> cache_stmt s"
  by (simp add: One_def emit_if_def)

subsection \<open>Deleting\<close>

text \<open>
  C8. \<^verbatim>\<open>Delete\<close> of the type with the composite key \<^verbatim>\<open>id\<close>, \<^verbatim>\<open>tenant\<close>, called for
  the key (1, 1) on a table that holds the rows (1, 1) and (1, 2): the delete that runs
  has no condition, and both rows are gone when the method returns nil.
\<close>

theorem Delete_by_composite_key_empties_the_table:
  "fst (call tenant_widgets (Delete tenant_widgets) tenant_world [] 0 (key_of 1 1)) =
     Some (Err None) \<and>
   tables tenant_world ''tenant_widgets'' = [[(''id'', 1), (''tenant'', 1)], [(''id'', 1), (''tenant'', 2)]] \<and>
   tables (snd (call tenant_widgets (Delete tenant_widgets) tenant_world [] 0 (key_of 1 1)))
     ''tenant_widgets'' = [] \<and>
   trace (snd (call tenant_widgets (Delete tenant_widgets) tenant_world [] 0 (key_of 1 1))) =
     [DeleteFrom \<lparr>table = ''tenant_widgets'', conds = []\<rparr>]"
  by (simp add: Delete_def tenant_widgets_def tenant_world_def key_of_def dao_defs)

text \<open>
  What \<^verbatim>\<open>Delete\<close> does in general. It issues one delete: for a single key, of the rows
  whose column \<^verbatim>\<open>id\<close> is the key argument; for a composite key, of all rows. When the
  storage does not fail, those rows are gone, the method returns nil and, with the cache,
  it has spawned the eviction of the key; the cache itself is as before when it returns,
  and the entry is gone once the goroutine has run. When the storage fails, the method
  returns the failure and has changed and spawned nothing. Without the cache the body has
  no eviction statement.
\<close>

lemma Delete_effects:
  "(let q = \<lparr>table = (if DynamicTableName (Options d) then tn else model_table d wd),
              conds = (if length (PrimaryKeys d) = 1 then [(''id'', a ''id'')] else [])\<rparr>
    in (fault wd = None \<longrightarrow>
          call d (Delete d) wd tn pid a =
            (Some (Err None),
             wd\<lparr>tables := (tables wd)
                    (table q := filter (\<lambda>r. \<not> matches (conds q) r) (tables wd (table q))),
                spawned := spawned wd @
                    (if Cached (Options d) then [CacheDelete (Itoa (a ''id''))] else []),
                trace := trace wd @ [DeleteFrom q]\<rparr>)) \<and>
       (\<forall>e. fault wd = Some e \<longrightarrow>
          call d (Delete d) wd tn pid a =
            (Some (Err (Some e)), wd\<lparr>trace := trace wd @ [DeleteFrom q]\<rparr>))) \<and>
   (\<not> Cached (Options d) \<longrightarrow> GoCacheDelete \<notin> set (Delete d))"
  by (auto simp: Let_def call_def Delete_def emit_if_def Delete_rows_def go_def Db_def Where_def
      logged_def model_table_def)

lemma Delete_evicts_once_settled:
  assumes "fault wd = None" and "Cached (Options d)" and "spawned wd = []"
  shows "cache (snd (call d (Delete d) wd tn pid a)) = cache wd"
    and "cache (settle (snd (call d (Delete d) wd tn pid a))) = (cache wd)(Itoa (a ''id'') := None)"
  using Delete_effects [of d tn wd a pid] assms by (simp_all add: Let_def settle_def)

lemma Delete_by_single_key_examples:
  "fst (call widgets (Delete widgets) sample_world [] 0 (key_id 7)) = Some (Err None) \<and>
   tables (snd (call widgets (Delete widgets) sample_world [] 0 (key_id 7))) ''widgets'' =
     [[(''id'', 8), (''size'', 5)]] \<and>
   trace (snd (call widgets (Delete widgets) sample_world [] 0 (key_id 7))) =
     [DeleteFrom \<lparr>table = ''widgets'', conds = [(''id'', 7)]\<rparr>] \<and>
   spawned (snd (call widgets (Delete widgets) sample_world [] 0 (key_id 7))) = [] \<and>
   spawned (snd (call cached_widgets (Delete cached_widgets) sample_world [] 0 (key_id 7))) =
     [CacheDelete ''7''] \<and>
   call cached_widgets (Delete cached_widgets)
       (sample_world\<lparr>fault := Some (StorageFailure ''connection lost'')\<rparr>) [] 0 (key_id 7) =
     (Some (Err (Some (StorageFailure ''connection lost''))),
      sample_world\<lparr>fault := Some (StorageFailure ''connection lost''),
                   trace := [DeleteFrom \<lparr>table = ''widgets'', conds = [(''id'', 7)]\<rparr>]\<rparr>) \<and>
   GoCacheDelete \<notin> set (Delete widgets)"
  using Delete_effects [of widgets "[]" sample_world "key_id 7" 0]
    Delete_effects [of cached_widgets "[]" sample_world "key_id 7" 0]
    Delete_effects [of cached_widgets "[]"
      "sample_world\<lparr>fault := Some (StorageFailure ''connection lost'')\<rparr>" "key_id 7" 0]
  by (simp add: dao_sample_defs Let_def model_table_def matches_def Itoa_7)

subsection \<open>Belongs-to relationships\<close>

text \<open>
  C9, as amended. The filter of a relationship keeps the rows whose foreign-key column is
  the parent id when the parent id is positive, and is the identity otherwise.
  \<^verbatim>\<open>ListBy\<close> runs one query, the filter applied to the whole table, and when the storage
  does not fail it returns just the rows the filter keeps: all rows for a parent id of zero
  or less. \<^verbatim>\<open>OneBy\<close> of a cached type reads the cache first, by \<^verbatim>\<open>id\<close> alone: a hit
  returns the cached row, and neither a query nor the filter runs. Otherwise (no cache, or
  a miss) \<^verbatim>\<open>OneBy\<close> puts the filter on the query before \<^verbatim>\<open>Find\<close> runs: the lookup of
  the key on the filtered query is the only query it runs, and when the storage does not
  fail it returns the first row with that key among the rows the filter keeps, or
  \<^verbatim>\<open>RecordNotFound\<close>.
\<close>

theorem belongs_to_filter_scopes_queries:
  "(let T = (if DynamicTableName (Options d) then tn else model_table d wd);
        all = \<lparr>table = T, conds = []\<rparr>
    in select_rows wd (FilterBy bt parentid q) =
         (if parentid > 0
          then filter (\<lambda>r. map_of r (DatabaseField bt) = Some parentid) (select_rows wd q)
          else select_rows wd q) \<and>
       trace (snd (call d (ListBy d bt) wd tn parentid a)) =
         trace wd @ [Select (FilterBy bt parentid all)] \<and>
       (fault wd = None \<longrightarrow>
          fst (call d (ListBy d bt) wd tn parentid a) =
            Some (Objs (if parentid > 0
                        then filter (\<lambda>r. map_of r (DatabaseField bt) = Some parentid) (tables wd T)
                        else tables wd T))) \<and>
       (\<forall>e\<in>set (drop (length (trace wd)) (trace (snd (call d (OneBy d bt) wd tn parentid a)))).
          e = CacheGet (Itoa (a ''id'')) \<or>
          e = Select (Where ''id'' (a ''id'') (FilterBy bt parentid all))) \<and>
       (\<forall>v. Cached (Options d) \<and> cache wd (Itoa (a ''id'')) = Some v \<longrightarrow>
          call d (OneBy d bt) wd tn parentid a =
            (Some (ObjErr v None), wd\<lparr>trace := trace wd @ [CacheGet (Itoa (a ''id''))]\<rparr>)) \<and>
       ((Cached (Options d) \<longrightarrow> cache wd (Itoa (a ''id'')) = None) \<longrightarrow>
          Select (Where ''id'' (a ''id'') (FilterBy bt parentid all))
            \<in> set (drop (length (trace wd)) (trace (snd (call d (OneBy d bt) wd tn parentid a)))) \<and>
          (fault wd = None \<longrightarrow>
             fst (call d (OneBy d bt) wd tn parentid a) =
               Some (case filter (\<lambda>r. map_of r ''id'' = Some (a ''id''))
                            (select_rows wd (FilterBy bt parentid all)) of
                       [] \<Rightarrow> ObjErr [] (Some RecordNotFound)
                     | r # rs \<Rightarrow> ObjErr r None))))"
proof -
  let ?T = "if DynamicTableName (Options d) then tn else model_table d wd"
  let ?all = "\<lparr>table = ?T, conds = []\<rparr>"
  have list_trace: "trace (snd (call d (ListBy d bt) wd tn parentid a)) =
      trace wd @ [Select (FilterBy bt parentid ?all)]"
    by (simp add: call_def ListBy_def Find_all_def Scopes_def Db_def logged_def Let_def
        split: option.splits)
  have list_rows: "fst (call d (ListBy d bt) wd tn parentid a) =
      Some (Objs (if parentid > 0
                  then filter (\<lambda>r. map_of r (DatabaseField bt) = Some parentid) (tables wd ?T)
                  else tables wd ?T))" if "fault wd = None"
    using that
    by (simp add: call_def ListBy_def Find_all_def Scopes_def Db_def Let_def logged_def
        select_rows_FilterBy select_rows_table)
  have one_trace: "\<forall>e\<in>set (drop (length (trace wd)) (trace (snd (call d (OneBy d bt) wd tn parentid a)))).
          e = CacheGet (Itoa (a ''id'')) \<or>
          e = Select (Where ''id'' (a ''id'') (FilterBy bt parentid ?all))"
    by (cases "Cached (Options d)"; cases "cache wd (Itoa (a ''id''))"; cases "fault wd")
      (auto simp: call_def OneBy_def emit_if_def Find_one_def Scopes_def Db_def Let_def logged_def
        go_def split: list.splits)
  have hit: "call d (OneBy d bt) wd tn parentid a =
            (Some (ObjErr v None), wd\<lparr>trace := trace wd @ [CacheGet (Itoa (a ''id''))]\<rparr>)"
    if "Cached (Options d) \<and> cache wd (Itoa (a ''id'')) = Some v" for v
    using that by (simp add: call_def OneBy_def emit_if_def logged_def Let_def)
  have miss_trace: "Select (Where ''id'' (a ''id'') (FilterBy bt parentid ?all))
            \<in> set (drop (length (trace wd)) (trace (snd (call d (OneBy d bt) wd tn parentid a))))"
    if "Cached (Options d) \<longrightarrow> cache wd (Itoa (a ''id'')) = None"
    using that
    by (cases "Cached (Options d)"; cases "fault wd")
      (auto simp: call_def OneBy_def emit_if_def Find_one_def Scopes_def Db_def Let_def logged_def
        go_def split: list.splits)
  have one: "fst (call d (OneBy d bt) wd tn parentid a) =
               Some (case filter (\<lambda>r. map_of r ''id'' = Some (a ''id''))
                            (select_rows wd (FilterBy bt parentid ?all)) of
                       [] \<Rightarrow> ObjErr [] (Some RecordNotFound)
                     | r # rs \<Rightarrow> ObjErr r None)"
    if "Cached (Options d) \<longrightarrow> cache wd (Itoa (a ''id'')) = None" and "fault wd = None"
    using that
    by (cases "Cached (Options d)")
      (auto simp: call_def OneBy_def emit_if_def Find_one_def Scopes_def Db_def Let_def logged_def
        go_def select_rows_Where split: list.splits)
  show ?thesis
    unfolding Let_def
    using list_trace list_rows one_trace hit miss_trace one select_rows_FilterBy [of wd bt parentid q]
    by blast
qed

theorem belongs_to_filter_scopes_queries_witness:
  "fault sample_world = None \<and>
   fst (call comments (ListBy comments post) sample_world [] 3 (key_id 0)) =
     Some (Objs [[(''id'', 1), (''post_id'', 3)], [(''id'', 3), (''post_id'', 3)]]) \<and>
   fst (call comments (ListBy comments post) sample_world [] 0 (key_id 0)) =
     Some (Objs [[(''id'', 1), (''post_id'', 3)], [(''id'', 2), (''post_id'', 4)],
                 [(''id'', 3), (''post_id'', 3)]]) \<and>
   fst (call comments (OneBy comments post) sample_world [] 3 (key_id 3)) =
     Some (ObjErr [(''id'', 3), (''post_id'', 3)] None) \<and>
   fst (call comments (OneBy comments post) sample_world [] 3 (key_id 2)) =
     Some (ObjErr [] (Some RecordNotFound)) \<and>
   Cached (Options cached_comments) \<and>
   cache (sample_world\<lparr>cache := [''2'' \<mapsto> [(''id'', 2), (''post_id'', 4)]]\<rparr>) (Itoa (key_id 2 ''id'')) =
     Some [(''id'', 2), (''post_id'', 4)] \<and>
   call cached_comments (OneBy cached_comments post)
       (sample_world\<lparr>cache := [''2'' \<mapsto> [(''id'', 2), (''post_id'', 4)]]\<rparr>) [] 3 (key_id 2) =
     (Some (ObjErr [(''id'', 2), (''post_id'', 4)] None),
      sample_world\<lparr>cache := [''2'' \<mapsto> [(''id'', 2), (''post_id'', 4)]], trace := [CacheGet ''2'']\<rparr>) \<and>
   cache (sample_world\<lparr>cache := [''2'' \<mapsto> [(''id'', 2), (''post_id'', 4)]]\<rparr>) (Itoa (key_id 3 ''id'')) =
     None \<and>
   fst (call cached_comments (OneBy cached_comments post)
       (sample_world\<lparr>cache := [''2'' \<mapsto> [(''id'', 2), (''post_id'', 4)]]\<rparr>) [] 3 (key_id 3)) =
     Some (ObjErr [(''id'', 3), (''post_id'', 3)] None) \<and>
   fst (call cached_comments (OneBy cached_comments post)
       (sample_world\<lparr>cache := [''2'' \<mapsto> [(''id'', 2), (''post_id'', 4)]]\<rparr>) [] 4 (key_id 3)) =
     Some (ObjErr [] (Some RecordNotFound))"
  using belongs_to_filter_scopes_queries [of comments "[]" sample_world post 3 "\<lparr>table = ''comments'', conds = []\<rparr>" "key_id 0"]
    belongs_to_filter_scopes_queries [of comments "[]" sample_world post 0 "\<lparr>table = ''comments'', conds = []\<rparr>" "key_id 0"]
    belongs_to_filter_scopes_queries [of comments "[]" sample_world post 3 "\<lparr>table = ''comments'', conds = []\<rparr>" "key_id 3"]
    belongs_to_filter_scopes_queries [of comments "[]" sample_world post 3 "\<lparr>table = ''comments'', conds = []\<rparr>" "key_id 2"]
    belongs_to_filter_scopes_queries [of cached_comments "[]"
      "sample_world\<lparr>cache := [''2'' \<mapsto> [(''id'', 2), (''post_id'', 4)]]\<rparr>" post 3
      "\<lparr>table = ''comments'', conds = []\<rparr>" "key_id 2"]
    belongs_to_filter_scopes_queries [of cached_comments "[]"
      "sample_world\<lparr>cache := [''2'' \<mapsto> [(''id'', 2), (''post_id'', 4)]]\<rparr>" post 3
      "\<lparr>table = ''comments'', conds = []\<rparr>" "key_id 3"]
    belongs_to_filter_scopes_queries [of cached_comments "[]"
      "sample_world\<lparr>cache := [''2'' \<mapsto> [(''id'', 2), (''post_id'', 4)]]\<rparr>" post 4
      "\<lparr>table = ''comments'', conds = []\<rparr>" "key_id 3"]
  by (simp add: dao_sample_defs Let_def model_table_def select_rows_def matches_def FilterBy_def
      Where_def Itoa_2 Itoa_3)

text \<open>
  C9 as stated fails for a cached type. After \<^verbatim>\<open>One\<close> has fetched comment 2, which
  belongs to post 4, and its goroutine has filled the cache, \<^verbatim>\<open>OneBy\<close> for parent 3 and
  key 2 returns that comment: the cache is read and no query runs, so the filter is never
  applied. On the storage alone the same call finds no such comment of post 3.
\<close>

theorem OneBy_returns_a_cached_row_of_another_parent:
  "fst (call cached_comments (OneBy cached_comments post)
          (settle (snd (call cached_comments (One cached_comments) sample_world [] 0 (key_id 2))))
          [] 3 (key_id 2)) =
     Some (ObjErr [(''id'', 2), (''post_id'', 4)] None) \<and>
   drop 2 (trace (snd (call cached_comments (OneBy cached_comments post)
          (settle (snd (call cached_comments (One cached_comments) sample_world [] 0 (key_id 2))))
          [] 3 (key_id 2)))) =
     [CacheGet ''2''] \<and>
   fst (call cached_comments (OneBy cached_comments post) sample_world [] 3 (key_id 2)) =
     Some (ObjErr [] (Some RecordNotFound))"
  by (simp add: One_def OneBy_def dao_sample_defs dao_defs Itoa_2)

end
